theory Spec2Isabelle
  imports Complex_Main "HOL-Library.AList" "HOL-Library.Char_ord" "HOL-Library.List_Lexorder"
begin

section \<open>Data model\<close>

text \<open>
  The validation engine of \<^verbatim>\<open>tools.py\<close> and \<^verbatim>\<open>main.py\<close> works on pandas data
  frames, on dictionaries describing schemas, and on the files of the schema history
  directory. Python strings are modelled as \<^typ>\<open>string\<close> (characters of the Latin-1
  range), Python numbers as exact rationals (the rounding of float64 is not modelled),
  and a dictionary as an association list in insertion order.
\<close>

subsection \<open>Cells, columns and data frames\<close>

text \<open>
  A cell of a data frame. \<open>Null\<close> stands for every value pandas treats as missing
  (\<^verbatim>\<open>None\<close>, \<^verbatim>\<open>NaN\<close>, \<^verbatim>\<open>NaT\<close>); a timestamp carries its canonical string form.
\<close>

datatype cell = Null | IntV int | FloatV rat | BoolV bool | StrV string | TimeV string

record column =
  dtype :: string
  vals :: "cell list"

text \<open>
  A data frame: the row labels (\<^verbatim>\<open>df.index\<close>) and the columns in order. pandas allows
  two columns of one name, so the columns are a list of pairs and not a map.
\<close>

record dataframe =
  index :: "int list"
  columns :: "(string \<times> column) list"


subsection \<open>Schemas\<close>

record column_profile =
  inferred_type :: string
  sample_values :: "cell list"
  null_count :: nat

text \<open>
  The dictionary returned by \<^verbatim>\<open>extract_schema_from_df\<close>. The keys \<^verbatim>\<open>total_columns\<close>,
  \<^verbatim>\<open>columns\<close> and \<^verbatim>\<open>error\<close> may be absent, so their fields are options.
\<close>

record file_schema =
  file_name :: string
  sheet_name :: "string option"
  total_rows :: nat
  total_columns :: "nat option"
  fs_columns :: "(string \<times> column_profile) list option"
  error :: "string option"

record db_column =
  db_type :: string
  nullable :: bool
  primary_key :: bool

type_synonym db_schema = "(string \<times> db_column) list"

section \<open>SchemaComparator: \<^verbatim>\<open>compare_schemas\<close>\<close>

text \<open>
  \<^verbatim>\<open>
  if "error" in file_schema or "columns" not in file_schema:
      return {"missing_in_file": list(db_schema.keys()), "extra_in_file": []}
  file_columns = set(file_schema.get('columns', {}).keys())
  db_columns = set(db_schema.keys())
  missing_in_file = list(db_columns - file_columns)
  extra_in_file = list(file_columns - db_columns)
  return {"columns_missing_from_file": missing_in_file,
          "columns_extra_in_file": extra_in_file}
  \<close>
  The result is a dictionary from key to list of names. Python fixes no order for a
  list made from a set; the model lists the names in schema order, and the theorems
  below read the lists as sets only. On the typed model nothing in the body can raise,
  so the \<^verbatim>\<open>except\<close> branch of the source has no counterpart.
\<close>

definition compare_schemas :: "file_schema \<Rightarrow> db_schema \<Rightarrow> (string \<times> string list) list" where
  "compare_schemas fs db =
     (if error fs \<noteq> None \<or> fs_columns fs = None
      then [(''missing_in_file'', map fst db), (''extra_in_file'', [])]
      else
        (let file_columns = map fst (the (fs_columns fs));
             db_columns = map fst db;
             missing_in_file = remdups (filter (\<lambda>n. n \<notin> set file_columns) db_columns);
             extra_in_file = remdups (filter (\<lambda>n. n \<notin> set db_columns) file_columns)
         in [(''columns_missing_from_file'', missing_in_file),
             (''columns_extra_in_file'', extra_in_file)]))"






section \<open>SchemaExtractor: \<^verbatim>\<open>extract_schema_from_df\<close>\<close>

subsection \<open>Dropping the rows that are empty throughout\<close>

text \<open>
  \<^verbatim>\<open>df.dropna(how='all', inplace=True)\<close> removes every row in which no column holds a
  value, and it changes the caller's data frame. The model computes, row by row, whether
  some column holds a value, keeps the rows that have one, and returns the new frame: a
  row of a frame without columns holds no value, so it is removed too.
\<close>

definition pick :: "bool list \<Rightarrow> 'a list \<Rightarrow> 'a list" where
  "pick m xs = map snd (filter fst (zip m xs))"

definition notna :: "cell \<Rightarrow> bool" where
  "notna c = (c \<noteq> Null)"

definition any_notna :: "dataframe \<Rightarrow> bool list" where
  "any_notna df =
     foldr (\<lambda>(n, c) m. map (\<lambda>(a, b). a \<or> b) (zip (map notna (vals c)) m))
       (columns df) (replicate (length (index df)) False)"

definition dropna_all :: "dataframe \<Rightarrow> dataframe" where
  "dropna_all df =
     (let m = any_notna df
      in \<lparr>index = pick m (index df),
          columns = map (\<lambda>(n, c). (n, c\<lparr>vals := pick m (vals c)\<rparr>)) (columns df)\<rparr>)"

text \<open>\<^verbatim>\<open>df.empty\<close>: one of the two axes has length 0.\<close>

definition df_empty :: "dataframe \<Rightarrow> bool" where
  "df_empty df = (index df = [] \<or> columns df = [])"

subsection \<open>Profiling a column\<close>

text \<open>
  Python compares \<^verbatim>\<open>1\<close>, \<^verbatim>\<open>1.0\<close> and \<^verbatim>\<open>True\<close> as equal, and pandas finds the
  distinct values of a column with that equality, in order of first appearance.
\<close>

fun num_val :: "cell \<Rightarrow> rat option" where
  "num_val (IntV i) = Some (of_int i)"
| "num_val (FloatV r) = Some r"
| "num_val (BoolV b) = Some (if b then 1 else 0)"
| "num_val c = None"

definition py_eq :: "cell \<Rightarrow> cell \<Rightarrow> bool" where
  "py_eq a b =
     (case (num_val a, num_val b) of
        (Some x, Some y) \<Rightarrow> x = y
      | (None, None) \<Rightarrow> a = b
      | _ \<Rightarrow> False)"

fun unique :: "cell list \<Rightarrow> cell list" where
  "unique [] = []"
| "unique (x # xs) = x # unique (filter (\<lambda>y. \<not> py_eq x y) xs)"

definition dropna :: "cell list \<Rightarrow> cell list" where
  "dropna xs = filter notna xs"

text \<open>\<^verbatim>\<open>str(s) if isinstance(s, (pd.Timestamp, datetime)) else s\<close>\<close>

fun stringify_temporal :: "cell \<Rightarrow> cell" where
  "stringify_temporal (TimeV s) = StrV s"
| "stringify_temporal c = c"

definition profile :: "column \<Rightarrow> column_profile" where
  "profile c =
     \<lparr>inferred_type = dtype c,
      sample_values = take 5 (map stringify_temporal (unique (dropna (vals c)))),
      null_count = length (filter (\<lambda>v. v = Null) (vals c))\<rparr>"

subsection \<open>The extractor\<close>

text \<open>
  \<^verbatim>\<open>
  try:
      df.dropna(how='all', inplace=True)
      if df.empty:
          return {"file_name": file_name, "sheet_name": sheet_name,
                  "total_rows": 0, "columns": {}}
      column_details = {}
      for col in df.columns:
          sample_values = df[col].dropna().unique().tolist()
          ...
          column_details[str(col)] = {'inferred_type': ..., 'sample_values': ...,
                                      'null_count': ...}
      return {"file_name": ..., "sheet_name": ..., "total_rows": len(df),
              "total_columns": len(df.columns), "columns": column_details}
  except Exception as e:
      return {"file_name": file_name, "sheet_name": sheet_name,
              "total_rows": 0, "columns": {}, "error": str(e)}
  \<close>
  The function returns the schema together with the data frame as the call leaves it.
  Where two columns share a name, \<^verbatim>\<open>df[col]\<close> is a data frame, which has no
  \<^verbatim>\<open>unique\<close>: the loop raises and the \<^verbatim>\<open>except\<close> branch answers (the message
  is written without its quotation marks). That is the one fault of the body the model
  can express.
\<close>

definition extract_schema_from_df ::
  "dataframe \<Rightarrow> string \<Rightarrow> string option \<Rightarrow> file_schema \<times> dataframe" where
  "extract_schema_from_df df0 fname sheet =
     (let df = dropna_all df0 in
      if df_empty df then
        (\<lparr>file_name = fname, sheet_name = sheet, total_rows = 0, total_columns = None,
          fs_columns = Some [], error = None\<rparr>, df)
      else if \<not> distinct (map fst (columns df)) then
        (\<lparr>file_name = fname, sheet_name = sheet, total_rows = 0, total_columns = None,
          fs_columns = Some [],
          error = Some ''DataFrame object has no attribute unique''\<rparr>, df)
      else
        (\<lparr>file_name = fname, sheet_name = sheet, total_rows = length (index df),
          total_columns = Some (length (columns df)),
          fs_columns = Some (map (\<lambda>(n, c). (n, profile c)) (columns df)),
          error = None\<rparr>, df))"

section \<open>TypeValidator: \<^verbatim>\<open>validate_data_types\<close>\<close>

subsection \<open>The type-compatibility table\<close>

text \<open>
  \<^verbatim>\<open>str.upper\<close> on the letters \<open>a\<close> to \<open>z\<close>; declared type names are ASCII, and every
  other character is left as it is.
\<close>

definition upper_char :: "char \<Rightarrow> char" where
  "upper_char c =
     (let n = (of_char c :: nat) in if 97 \<le> n \<and> n \<le> 122 then char_of (n - 32) else c)"

definition upper :: "string \<Rightarrow> string" where
  "upper s = map upper_char s"

definition pandas_to_sql_map :: "(string \<times> string list) list" where
  "pandas_to_sql_map =
     [(''int64'', [''INTEGER'', ''INT'']),
      (''float64'', [''REAL'', ''FLOAT'', ''NUMERIC'']),
      (''object'', [''TEXT'', ''VARCHAR'', ''CHAR'', ''DATE'', ''DATETIME'', ''TIMESTAMP'']),
      (''datetime64[ns]'', [''DATE'', ''DATETIME'', ''TIMESTAMP'']),
      (''bool'', [''BOOLEAN'', ''BOOL''])]"

text \<open>
  \<^verbatim>\<open>
  sql_to_pandas_map = {}
  for pd_type, sql_types in pandas_to_sql_map.items():
      for sql_type in sql_types:
          if sql_type not in sql_to_pandas_map or pd_type != 'object':
               sql_to_pandas_map[sql_type.upper()] = pd_type
  \<close>
\<close>

definition sql_to_pandas_map :: "(string \<times> string) list" where
  "sql_to_pandas_map =
     fold (\<lambda>(pd_type, sql_types) m.
             fold (\<lambda>sql_type m.
                     if map_of m sql_type = None \<or> pd_type \<noteq> ''object''
                     then AList.update (upper sql_type) pd_type m else m)
                  sql_types m)
          pandas_to_sql_map []"

subsection \<open>Selecting a column by name\<close>

text \<open>
  \<^verbatim>\<open>df[name]\<close> is a series when one column has the name and a data frame when several
  have it; \<open>named df name\<close> lists the columns of that name.
\<close>

definition named :: "dataframe \<Rightarrow> string \<Rightarrow> column list" where
  "named df name = map snd (filter (\<lambda>(n, c). n = name) (columns df))"

subsection \<open>The validator\<close>

record type_violation =
  tv_column :: string
  expected_db_type :: string
  found_file_type :: string

datatype log_event =
    DuplicateColumnWarning string
  | UnknownDbTypeWarning string string
  | CheckConstraintsUnavailableWarning
  | SkippedCheckConstraintInfo string string
  | HistoryFileWarning string

text \<open>\<^verbatim>\<open>str(db_col_details['type']).split('(')[0].upper()\<close>\<close>

definition db_type_base :: "db_column \<Rightarrow> string" where
  "db_type_base d = upper (takeWhile (\<lambda>c. c \<noteq> CHR ''('') (db_type d))"

text \<open>
  One round of the loop over \<^verbatim>\<open>db_schema.items()\<close>:
  \<^verbatim>\<open>
  if db_col_name not in file_schema_columns: continue
  column_data = df[db_col_name]
  if isinstance(column_data, pd.DataFrame):
      logging.warning(...); continue
  file_dtype = str(df[db_col_name].dtype)
  db_type_base = str(db_col_details['type']).split('(')[0].upper()
  expected_pd_type_category = sql_to_pandas_map.get(db_type_base)
  mismatch = False
  if expected_pd_type_category:
      if file_dtype != expected_pd_type_category:
          is_db_date_type = db_type_base in ['DATE', 'DATETIME', 'TIMESTAMP']
          if not (is_db_date_type and file_dtype == 'object'):
              mismatch = True
  else:
      logging.warning(...)
  if mismatch:
      ...
      type_violations.append(violation)
  \<close>
  The round gives the violations it appends and the warnings it logs. The list
  \<^verbatim>\<open>sample_invalid_values\<close> of a violation, which rests on the number parsing and
  printing of pandas and Python, is not modelled.
\<close>

definition validate_column ::
  "dataframe \<Rightarrow> string \<times> db_column \<Rightarrow> type_violation list \<times> log_event list" where
  "validate_column df entry =
     (let db_col_name = fst entry; db_col_details = snd entry in
      case named df db_col_name of
        [] \<Rightarrow> ([], [])
      | [column_data] \<Rightarrow>
          (let file_dtype = dtype column_data;
               base = db_type_base db_col_details
           in case map_of sql_to_pandas_map base of
                None \<Rightarrow> ([], [UnknownDbTypeWarning base db_col_name])
              | Some expected_pd_type_category \<Rightarrow>
                  if expected_pd_type_category = [] then
                    ([], [UnknownDbTypeWarning base db_col_name])
                  else if file_dtype \<noteq> expected_pd_type_category
                          \<and> \<not> (base \<in> set [''DATE'', ''DATETIME'', ''TIMESTAMP'']
                                 \<and> file_dtype = ''object'')
                  then ([\<lparr>tv_column = db_col_name, expected_db_type = base,
                           found_file_type = file_dtype\<rparr>], [])
                  else ([], []))
      | _ \<Rightarrow> ([], [DuplicateColumnWarning db_col_name]))"

definition validate_data_types ::
  "dataframe \<Rightarrow> db_schema \<Rightarrow> type_violation list \<times> log_event list" where
  "validate_data_types df db =
     (let rounds = map (validate_column df) db
      in (concat (map fst rounds), concat (map snd rounds)))"

section \<open>DataQualityChecker: \<^verbatim>\<open>run_data_quality_checks\<close>\<close>

subsection \<open>Strings: white space, containment, the pattern of a CHECK constraint\<close>

text \<open>
  The characters \<^verbatim>\<open>str.strip\<close> removes and \<^verbatim>\<open>\s\<close> matches, in the Latin-1 range:
  tab to carriage return, the four separators \<open>0x1C\<close> to \<open>0x1F\<close>, the space, \<open>0x85\<close>
  and the no-break space.
\<close>

definition is_space :: "char \<Rightarrow> bool" where
  "is_space c =
     (let n = (of_char c :: nat)
      in (9 \<le> n \<and> n \<le> 13) \<or> (28 \<le> n \<and> n \<le> 32) \<or> n = 133 \<or> n = 160)"

definition strip :: "string \<Rightarrow> string" where
  "strip s = rev (dropWhile is_space (rev (dropWhile is_space s)))"

definition is_digit :: "char \<Rightarrow> bool" where
  "is_digit c = (let n = (of_char c :: nat) in 48 \<le> n \<and> n \<le> 57)"

definition starts_with :: "string \<Rightarrow> string \<Rightarrow> bool" where
  "starts_with p s = (take (length p) s = p)"

text \<open>\<^verbatim>\<open>sub in s\<close>\<close>

fun contains :: "string \<Rightarrow> string \<Rightarrow> bool" where
  "contains sub [] = (sub = [])"
| "contains sub (c # cs) = (starts_with sub (c # cs) \<or> contains sub cs)"

text \<open>
  Under \<^verbatim>\<open>re.IGNORECASE\<close> two characters match when their lower-case forms agree; in
  the Latin-1 range the letters with a lower-case form are \<open>A\<close> to \<open>Z\<close> and \<open>0xC0\<close> to
  \<open>0xDE\<close> without the multiplication sign \<open>0xD7\<close>.
\<close>

definition lower_char :: "char \<Rightarrow> char" where
  "lower_char c =
     (let n = (of_char c :: nat)
      in if (65 \<le> n \<and> n \<le> 90) \<or> (192 \<le> n \<and> n \<le> 222 \<and> n \<noteq> 215)
         then char_of (n + 32) else c)"

definition starts_with_ci :: "string \<Rightarrow> string \<Rightarrow> bool" where
  "starts_with_ci p s = (map lower_char (take (length p) s) = map lower_char p)"

definition digits_value :: "string \<Rightarrow> nat" where
  "digits_value ds = foldl (\<lambda>a c. 10 * a + ((of_char c :: nat) - 48)) 0 ds"

text \<open>
  The last group of the pattern, \<^verbatim>\<open>(-?\d+(\.\d+)?)\<close>, and \<^verbatim>\<open>float\<close> of the text it
  matched: an optional minus sign, the longest run of digits, and a fraction when a dot
  and a digit follow. Text after the number is not looked at.
\<close>

definition match_number :: "string \<Rightarrow> rat option" where
  "match_number s =
     (let neg = starts_with ''-'' s;
          s1 = (if neg then tl s else s);
          ds = takeWhile is_digit s1;
          s2 = dropWhile is_digit s1;
          fs = (if starts_with ''.'' s2 then takeWhile is_digit (tl s2) else []);
          v = of_nat (digits_value ds) + of_nat (digits_value fs) / 10 ^ length fs
      in if ds = [] then None else Some (if neg then - v else v))"

text \<open>
  The alternation \<^verbatim>\<open>(>=|<=|>|<|!=|=)\<close> followed by \<^verbatim>\<open>\s*\<close> and the number: the
  alternatives are tried in the order written, and a later one is tried when the rest
  fails after an earlier one.
\<close>

fun match_operator :: "string list \<Rightarrow> string \<Rightarrow> (string \<times> rat) option" where
  "match_operator [] s = None"
| "match_operator (operator # ops) s =
     (if starts_with operator s then
        (case match_number (dropWhile is_space (drop (length operator) s)) of
           Some v \<Rightarrow> Some (operator, v)
         | None \<Rightarrow> match_operator ops s)
      else match_operator ops s)"

definition is_quote :: "char \<Rightarrow> bool" where
  "is_quote c = (c = CHR 0x22 \<or> c = CHR 0x60)"

definition skip_quote :: "string \<Rightarrow> string list" where
  "skip_quote s = (case s of [] \<Rightarrow> [s] | c # cs \<Rightarrow> if is_quote c then [cs, s] else [s])"

text \<open>
  \<^verbatim>\<open>
  re.match(rf'["`]?{re.escape(db_col_name)}["`]?\s*(>=|<=|>|<|!=|=)\s*(-?\d+(\.\d+)?)',
           sqltext, re.IGNORECASE)
  \<close>
  The match starts at the first character of the text. An optional quotation mark is
  taken when it is there and given back when the rest fails with it (\<open>skip_quote\<close> lists
  the two continuations in that order); white space is taken greedily, and giving some
  of it back never helps, since neither an operator nor a number starts with white
  space. The result is the operator and the value of the number.
\<close>

definition first_some :: "('a \<Rightarrow> 'b option) \<Rightarrow> 'a list \<Rightarrow> 'b option" where
  "first_some f xs = (case List.map_filter f xs of [] \<Rightarrow> None | y # ys \<Rightarrow> Some y)"

definition match_after_name :: "string \<Rightarrow> (string \<times> rat) option" where
  "match_after_name s =
     first_some (\<lambda>s1. match_operator [''>='', ''<='', ''>'', ''<'', ''!='', ''='']
                         (dropWhile is_space s1))
       (skip_quote s)"

definition match_check :: "string \<Rightarrow> string \<Rightarrow> (string \<times> rat) option" where
  "match_check db_col_name sqltext =
     first_some (\<lambda>s0. if starts_with_ci db_col_name s0
                       then match_after_name (drop (length db_col_name) s0) else None)
       (skip_quote sqltext)"

subsection \<open>Coercion to numbers\<close>

text \<open>
  \<^verbatim>\<open>pd.to_numeric(column_data, errors='coerce')\<close>, cell by cell: a number stays, a
  truth value counts as 1 or 0, a missing value stays missing. What a string or a
  timestamp becomes is decided by the parser of pandas, which is a parameter \<open>conv\<close> of
  the model: \<open>None\<close> where the parser fails and pandas puts \<^verbatim>\<open>NaN\<close>. (In a column of
  dtype \<^verbatim>\<open>datetime64\<close> pandas turns a missing value into a number; the model keeps it
  missing.)
\<close>

fun to_numeric :: "(cell \<Rightarrow> rat option) \<Rightarrow> cell \<Rightarrow> rat option" where
  "to_numeric conv Null = None"
| "to_numeric conv (IntV i) = Some (of_int i)"
| "to_numeric conv (FloatV r) = Some r"
| "to_numeric conv (BoolV b) = Some (if b then 1 else 0)"
| "to_numeric conv c = conv c"

subsection \<open>Kinds of dtype\<close>

definition is_numeric_dtype :: "string \<Rightarrow> bool" where
  "is_numeric_dtype d =
     (d \<in> set [''int8'', ''int16'', ''int32'', ''int64'',
               ''uint8'', ''uint16'', ''uint32'', ''uint64'',
               ''float16'', ''float32'', ''float64'', ''complex64'', ''complex128'',
               ''bool'', ''Int8'', ''Int16'', ''Int32'', ''Int64'',
               ''UInt8'', ''UInt16'', ''UInt32'', ''UInt64'',
               ''Float32'', ''Float64'', ''boolean''])"

definition is_datetime64_any_dtype :: "string \<Rightarrow> bool" where
  "is_datetime64_any_dtype d = starts_with ''datetime64'' d"

subsection \<open>Violations\<close>

text \<open>
  The three kinds of entry the checker appends, with the fields of the source in their
  order: the column first, then the counts, the samples and, for a CHECK constraint,
  its name and text before them. The samples are the cells themselves (the source
  prints them with \<^verbatim>\<open>str\<close>); the severity is fixed by the kind; the sentence under
  \<^verbatim>\<open>details\<close> repeats the counts and is left out.
\<close>

datatype dq_violation =
    not_null_violation string nat "int list"
  | primary_key_violation string nat nat "cell list"
  | check_constraint_violation string "string option" string nat "int list" "cell list"

fun dq_column :: "dq_violation \<Rightarrow> string" where
  "dq_column (not_null_violation c n idx) = c"
| "dq_column (primary_key_violation c k n vs) = c"
| "dq_column (check_constraint_violation c cn sql n idx vs) = c"

fun severity :: "dq_violation \<Rightarrow> string" where
  "severity (not_null_violation c n idx) = ''high''"
| "severity (primary_key_violation c k n vs) = ''high''"
| "severity (check_constraint_violation c cn sql n idx vs) = ''medium''"

record check_constraint =
  cname :: "string option"
  sqltext :: "string option"

text \<open>\<^verbatim>\<open>c.get('sqltext', '')\<close>\<close>

definition get_sqltext :: "check_constraint \<Rightarrow> string" where
  "get_sqltext c = (case sqltext c of None \<Rightarrow> [] | Some t \<Rightarrow> t)"

subsection \<open>The not-null check\<close>

text \<open>
  \<^verbatim>\<open>
  if not db_col_details['nullable']:
      null_count = int(column_data.isnull().sum())
      is_numeric_type = pd.api.types.is_numeric_dtype(column_data.dtype)
      empty_string_count = 0
      if is_numeric_type or pd.api.types.is_datetime64_any_dtype(column_data.dtype):
          if column_data.dtype == 'object':
              empty_string_count = int((column_data == '').sum())
              null_count += empty_string_count
      if null_count > 0:
          affected_rows_sample_indices = df[column_data.isnull() |
              ((column_data.dtype == 'object') & (column_data == ''))].index.tolist()[:5]
          dq_violations.append({... "check": "not_null_violation", "count": null_count, ...})
  \<close>
\<close>

definition count_where :: "('a \<Rightarrow> bool) \<Rightarrow> 'a list \<Rightarrow> nat" where
  "count_where P xs = length (filter P xs)"

definition null_check :: "dataframe \<Rightarrow> string \<Rightarrow> db_column \<Rightarrow> column \<Rightarrow> dq_violation list" where
  "null_check df db_col_name db_col_details column_data =
     (if \<not> nullable db_col_details then
        (let null_count0 = count_where (\<lambda>v. v = Null) (vals column_data);
             null_count =
               (if is_numeric_dtype (dtype column_data)
                   \<or> is_datetime64_any_dtype (dtype column_data)
                then (if dtype column_data = ''object''
                      then null_count0 + count_where (\<lambda>v. v = StrV []) (vals column_data)
                      else null_count0)
                else null_count0)
         in if null_count > 0 then
              [not_null_violation db_col_name null_count
                 (take 5 (pick (map (\<lambda>v. v = Null \<or> (dtype column_data = ''object'' \<and> v = StrV []))
                                    (vals column_data))
                               (index df)))]
            else [])
      else [])"

subsection \<open>The primary-key check\<close>

text \<open>
  \<^verbatim>\<open>
  if db_col_details['primary_key']:
      non_null_pk_df = df.dropna(subset=[db_col_name])
      duplicates_df = non_null_pk_df[non_null_pk_df.duplicated(subset=[db_col_name], keep=False)]
      distinct_duplicate_values = duplicates_df[db_col_name].unique()
      duplicate_record_count = len(duplicates_df)
      distinct_keys_duplicated = len(distinct_duplicate_values)
      if distinct_keys_duplicated > 0:
          dq_violations.append({... "check": "primary_key_violation", ...})
  \<close>
\<close>

definition primary_key_check :: "string \<Rightarrow> db_column \<Rightarrow> column \<Rightarrow> dq_violation list" where
  "primary_key_check db_col_name db_col_details column_data =
     (if primary_key db_col_details then
        (let non_null_pk = dropna (vals column_data);
             duplicates = filter (\<lambda>v. 2 \<le> count_where (py_eq v) non_null_pk) non_null_pk;
             distinct_duplicate_values = unique duplicates;
             duplicate_record_count = length duplicates;
             distinct_keys_duplicated = length distinct_duplicate_values
         in if distinct_keys_duplicated > 0 then
              [primary_key_violation db_col_name distinct_keys_duplicated
                 duplicate_record_count (take 5 distinct_duplicate_values)]
            else [])
      else [])"

subsection \<open>The CHECK-constraint check\<close>

text \<open>
  \<^verbatim>\<open>
  if operator == '>': violated_rows = numeric_col <= value
  elif operator == '>=': violated_rows = numeric_col < value
  elif operator == '<': violated_rows = numeric_col >= value
  elif operator == '<=': violated_rows = numeric_col > value
  elif operator == '!=': violated_rows = numeric_col == value
  elif operator == '=': violated_rows = numeric_col != value
  violated_rows = violated_rows & numeric_col.notna()
  \<close>
\<close>

definition violates :: "string \<Rightarrow> rat \<Rightarrow> rat \<Rightarrow> bool" where
  "violates operator v x =
     (if operator = ''>'' then x \<le> v
      else if operator = ''>='' then x < v
      else if operator = ''<'' then x \<ge> v
      else if operator = ''<='' then x > v
      else if operator = ''!='' then x = v
      else if operator = ''='' then x \<noteq> v
      else False)"

definition violated_rows :: "string \<Rightarrow> rat \<Rightarrow> rat option list \<Rightarrow> bool list" where
  "violated_rows operator v numeric_col =
     map (\<lambda>n. case n of None \<Rightarrow> False | Some x \<Rightarrow> violates operator v x) numeric_col"

text \<open>
  One constraint of the column:
  \<^verbatim>\<open>
  sqltext = constraint.get('sqltext', '').strip()
  match = re.match(..., sqltext, re.IGNORECASE)
  if match and is_numeric:
      operator = match.group(1)
      value = float(match.group(2))
      ...
      violation_count = int(violated_rows.sum())
      if violation_count > 0:
          affected_indices = df[violated_rows].index.tolist()[:5]
          sample_violating_values = df.loc[affected_indices, db_col_name].tolist()[:5]
          dq_violations.append({... "check": "check_constraint_violation", ...})
  else:
      logging.info(f"Skipping CHECK constraint ...")
  \<close>
  The row labels of a loaded data frame are distinct, so the values at the first five
  labels are the first five violating values.
\<close>

definition check_one_constraint ::
  "dataframe \<Rightarrow> string \<Rightarrow> column \<Rightarrow> rat option list \<Rightarrow> bool \<Rightarrow> check_constraint
     \<Rightarrow> dq_violation list \<times> log_event list" where
  "check_one_constraint df db_col_name column_data numeric_col is_numeric constraint =
     (let text = strip (get_sqltext constraint) in
      case match_check db_col_name text of
        None \<Rightarrow> ([], [SkippedCheckConstraintInfo db_col_name text])
      | Some (operator, v) \<Rightarrow>
          if is_numeric then
            (let rows = violated_rows operator v numeric_col;
                 violation_count = count_where (\<lambda>b. b) rows
             in if violation_count > 0 then
                  ([check_constraint_violation db_col_name (cname constraint) text
                      violation_count (take 5 (pick rows (index df)))
                      (take 5 (pick rows (vals column_data)))], [])
                else ([], []))
          else ([], [SkippedCheckConstraintInfo db_col_name text]))"

text \<open>
  \<^verbatim>\<open>
  col_check_constraints = [c for c in check_constraints
                           if db_col_name in c.get('sqltext', '')]
  if col_check_constraints:
      numeric_col = pd.to_numeric(column_data, errors='coerce')
      is_numeric = numeric_col.notna().all()
      for constraint in col_check_constraints: ...
  \<close>
\<close>

definition constraint_check ::
  "(cell \<Rightarrow> rat option) \<Rightarrow> dataframe \<Rightarrow> string \<Rightarrow> column \<Rightarrow> check_constraint list
     \<Rightarrow> dq_violation list \<times> log_event list" where
  "constraint_check conv df db_col_name column_data check_constraints =
     (let col_check_constraints =
            filter (\<lambda>c. contains db_col_name (get_sqltext c)) check_constraints;
          numeric_col = map (to_numeric conv) (vals column_data);
          is_numeric = list_all (\<lambda>n. n \<noteq> None) numeric_col;
          rounds = map (check_one_constraint df db_col_name column_data numeric_col is_numeric)
                       col_check_constraints
      in (concat (map fst rounds), concat (map snd rounds)))"

subsection \<open>The checker\<close>

text \<open>
  One round of the loop over \<^verbatim>\<open>db_schema.items()\<close>: a column the data frame does not
  have is passed over, a name that several columns of the data frame carry is logged
  and passed over, and for any other column the three checks run in turn.
\<close>

definition check_column ::
  "(cell \<Rightarrow> rat option) \<Rightarrow> dataframe \<Rightarrow> check_constraint list \<Rightarrow> string \<times> db_column
     \<Rightarrow> dq_violation list \<times> log_event list" where
  "check_column conv df check_constraints entry =
     (let db_col_name = fst entry; db_col_details = snd entry in
      case named df db_col_name of
        [] \<Rightarrow> ([], [])
      | [column_data] \<Rightarrow>
          (let cc = constraint_check conv df db_col_name column_data check_constraints
           in (null_check df db_col_name db_col_details column_data
                 @ primary_key_check db_col_name db_col_details column_data
                 @ fst cc,
               snd cc))
      | _ \<Rightarrow> ([], [DuplicateColumnWarning db_col_name]))"

text \<open>
  \<^verbatim>\<open>
  try:
      check_constraints = inspector.get_check_constraints(table_name)
  except Exception as e:
      logging.warning(...)
      check_constraints = []
  for db_col_name, db_col_details in db_schema.items(): ...
  return dq_violations
  \<close>
  The answer of the database is an argument: \<open>None\<close> when the call raises.
\<close>

definition run_data_quality_checks ::
  "(cell \<Rightarrow> rat option) \<Rightarrow> dataframe \<Rightarrow> db_schema \<Rightarrow> check_constraint list option
     \<Rightarrow> dq_violation list \<times> log_event list" where
  "run_data_quality_checks conv df db fetched =
     (let check_constraints = (case fetched of None \<Rightarrow> [] | Some cs \<Rightarrow> cs);
          rounds = map (check_column conv df check_constraints) db
      in (concat (map fst rounds),
          (case fetched of None \<Rightarrow> [CheckConstraintsUnavailableWarning] | Some cs \<Rightarrow> [])
            @ concat (map snd rounds)))"

section \<open>SchemaHistoryStore\<close>

text \<open>
  The directory \<^verbatim>\<open>schema_history\<close> is a list of files in the order the file system
  lists them, each a path with what \<^verbatim>\<open>json.load\<close> makes of the file: \<open>None\<close> when the
  file cannot be opened or parsed. A snapshot is the dictionary under the key
  \<^verbatim>\<open>columns\<close>.
\<close>

type_synonym snapshot = "(string \<times> column_profile) list"

type_synonym history = "(string \<times> snapshot option) list"

definition SCHEMA_HISTORY_DIR :: string where
  "SCHEMA_HISTORY_DIR = ''schema_history''"

text \<open>
  \<^verbatim>\<open>"".join(c if c.isalnum() else "_" for c in table_name)\<close>; in the Latin-1 range
  \<^verbatim>\<open>isalnum\<close> holds of the ASCII digits and letters, of the superscript digits and the
  fractions, and of the accented letters.
\<close>

definition isalnum :: "char \<Rightarrow> bool" where
  "isalnum c =
     (let n = (of_char c :: nat)
      in (48 \<le> n \<and> n \<le> 57) \<or> (65 \<le> n \<and> n \<le> 90) \<or> (97 \<le> n \<and> n \<le> 122)
         \<or> n = 170 \<or> n = 178 \<or> n = 179 \<or> n = 181 \<or> n = 185 \<or> n = 186
         \<or> (188 \<le> n \<and> n \<le> 190) \<or> (192 \<le> n \<and> n \<le> 214)
         \<or> (216 \<le> n \<and> n \<le> 246) \<or> (248 \<le> n \<and> n \<le> 255))"

definition safe_table_name :: "string \<Rightarrow> string" where
  "safe_table_name table_name = map (\<lambda>c. if isalnum c then c else CHR ''_'') table_name"

definition ends_with :: "string \<Rightarrow> string \<Rightarrow> bool" where
  "ends_with suffix s = starts_with (rev suffix) (rev s)"

text \<open>
  \<^verbatim>\<open>glob.glob(os.path.join(SCHEMA_HISTORY_DIR, f"{safe_table_name}_schema_*.json"))\<close>:
  the paths of the directory that begin with the text before the star and go on with
  a name part, free of \<open>/\<close>, that ends in \<^verbatim>\<open>.json\<close>. The safe table name holds no
  character that is special in a pattern.
\<close>

definition search_prefix :: "string \<Rightarrow> string" where
  "search_prefix table_name =
     SCHEMA_HISTORY_DIR @ ''/'' @ safe_table_name table_name @ ''_schema_''"

definition matches_pattern :: "string \<Rightarrow> string \<Rightarrow> bool" where
  "matches_pattern table_name path =
     (let prefix = search_prefix table_name; rest = drop (length prefix) path
      in starts_with prefix path \<and> ends_with ''.json'' rest \<and> CHR ''/'' \<notin> set rest)"

definition glob :: "history \<Rightarrow> string \<Rightarrow> string list" where
  "glob files table_name = filter (matches_pattern table_name) (map fst files)"

text \<open>\<^verbatim>\<open>xs[:n]\<close> for a Python integer \<open>n\<close>: a negative \<open>n\<close> counts from the end.\<close>

definition slice_to :: "int \<Rightarrow> 'a list \<Rightarrow> 'a list" where
  "slice_to n xs = (if 0 \<le> n then take (nat n) xs else take (length xs - nat (- n)) xs)"

text \<open>
  \<^verbatim>\<open>
  history_files = sorted(glob.glob(search_pattern), reverse=True)
  files_to_load = history_files[:num_history]
  for file in files_to_load:
      try:
          with open(file, 'r') as f:
              schema_data = json.load(f)
              historical_schemas.append(schema_data)
      except Exception as e:
          logging.warning(f"Error loading historical schema file '{file}': {e}")
  return historical_schemas
  \<close>
  \<open>files_to_load\<close> and \<open>load_files\<close> keep the path beside each snapshot, so that the
  order of the result can be stated; \<open>load_historical_schemas\<close> returns the snapshots
  and the warnings.
\<close>

definition files_to_load :: "history \<Rightarrow> string \<Rightarrow> int \<Rightarrow> string list" where
  "files_to_load files table_name num_history =
     slice_to num_history (rev (sort (glob files table_name)))"

definition read_json :: "history \<Rightarrow> string \<Rightarrow> snapshot option" where
  "read_json files path = (case map_of files path of None \<Rightarrow> None | Some content \<Rightarrow> content)"

definition load_files :: "history \<Rightarrow> string list \<Rightarrow> (string \<times> snapshot) list" where
  "load_files files paths =
     List.map_filter (\<lambda>file. case read_json files file of
                               None \<Rightarrow> None | Some schema_data \<Rightarrow> Some (file, schema_data))
       paths"

definition load_historical_schemas ::
  "history \<Rightarrow> string \<Rightarrow> int \<Rightarrow> snapshot list \<times> log_event list" where
  "load_historical_schemas files table_name num_history =
     (let paths = files_to_load files table_name num_history
      in (map snd (load_files files paths),
          map HistoryFileWarning (filter (\<lambda>file. read_json files file = None) paths)))"

text \<open>
  \<^verbatim>\<open>
  timestamp = datetime.now().strftime('%Y%m%dT%H%M%SZ')
  filename = f"{safe_table_name}_schema_{timestamp}.json"
  filepath = os.path.join(SCHEMA_HISTORY_DIR, filename)
  schema_to_save = {"columns": file_schema.get("columns", {})}
  with open(filepath, 'w') as f: json.dump(schema_to_save, f, indent=2)
  \<close>
  The formatted time is an argument. A file of that path is written over.
\<close>

definition save_schema_to_history :: "history \<Rightarrow> string \<Rightarrow> string \<Rightarrow> file_schema \<Rightarrow> history" where
  "save_schema_to_history files table_name timestamp fs =
     AList.update (search_prefix table_name @ timestamp @ ''.json'')
       (Some (case fs_columns fs of None \<Rightarrow> [] | Some cs \<Rightarrow> cs)) files"

section \<open>MultiSheetOrchestrator\<close>

subsection \<open>The collaborators\<close>

text \<open>
  What the orchestrator asks of the database and of the language model is given by
  functions of the request. An answer of the language model is missing, is no JSON, or
  is parsed JSON: for the schema analysis an object, of which the model keeps the
  dictionary \<^verbatim>\<open>naming_mismatches\<close> (when the key is there) and the remaining text; for
  the rules and for the final report the text.
\<close>

datatype 'a llm_answer = NoAnswer | NotJson | Json 'a

record schema_analysis =
  naming_mismatches :: "(string \<times> string) list option"
  analysis_text :: string

datatype dynamic_rules = NoRules | Rules string | RulesFailed

record file_metadata =
  fm_file_name :: string
  fm_sheet_name :: "string option"
  fm_total_rows :: nat

record env =
  all_table_schemas :: "(string \<times> (string \<times> string) list) list"
  get_db_schema :: "string \<Rightarrow> string + db_schema option"
  get_check_constraints :: "string \<Rightarrow> check_constraint list option"
  conv :: "cell \<Rightarrow> rat option"
  llm_schema_analysis ::
    "db_schema \<Rightarrow> file_schema \<Rightarrow> (string \<times> string list) list \<Rightarrow> string \<Rightarrow> string
       \<Rightarrow> schema_analysis llm_answer"
  llm_dynamic_rules :: "file_schema \<Rightarrow> string llm_answer"
  llm_final_report ::
    "file_metadata \<Rightarrow> schema_analysis \<Rightarrow> type_violation list \<Rightarrow> dq_violation list
       \<Rightarrow> file_schema \<Rightarrow> snapshot list \<Rightarrow> dynamic_rules \<Rightarrow> string llm_answer"

text \<open>
  What a run changes: the lines still to be read from the terminal, and the files of
  the schema history.
\<close>

record world =
  stdin :: "string list"
  schema_history :: history

subsection \<open>Reports\<close>

text \<open>
  The dictionary of the \<^verbatim>\<open>except\<close> branch,
  \<^verbatim>\<open>
  {"file_name": file_path, "sheet_name": sheet_name, "validated_at": ...,
   "validation_summary": {"status": "Error", "details": str(e)}, "error": str(e)}
  \<close>
  without the time of day, or the final report of the language model.
\<close>

record error_result =
  er_file_name :: string
  er_sheet_name :: "string option"
  er_status :: string
  er_details :: string
  er_error :: string

datatype sheet_report = ErrorShaped error_result | FinalReport string

definition error_report :: "string \<Rightarrow> string option \<Rightarrow> string \<Rightarrow> sheet_report" where
  "error_report file_path sheet e =
     ErrorShaped \<lparr>er_file_name = file_path, er_sheet_name = sheet, er_status = ''Error'',
                  er_details = e, er_error = e\<rparr>"

subsection \<open>Small helpers\<close>

definition quoted :: "string \<Rightarrow> string" where
  "quoted s = [CHR 0x27] @ s @ [CHR 0x27]"

text \<open>\<^verbatim>\<open>str.lower\<close>\<close>

definition lower :: "string \<Rightarrow> string" where
  "lower s = map lower_char s"

text \<open>\<^verbatim>\<open>os.path.basename\<close>\<close>

definition basename :: "string \<Rightarrow> string" where
  "basename path = rev (takeWhile (\<lambda>c. c \<noteq> CHR ''/'') (rev path))"

text \<open>\<^verbatim>\<open>df.rename(columns=naming_mismatches)\<close>: a new data frame.\<close>

definition rename :: "(string \<times> string) list \<Rightarrow> dataframe \<Rightarrow> dataframe" where
  "rename mapping df =
     df\<lparr>columns := map (\<lambda>(n, c). (case map_of mapping n of None \<Rightarrow> n | Some n' \<Rightarrow> n', c))
                       (columns df)\<rparr>"

definition NUM_HISTORICAL_SCHEMAS_TO_LOAD :: int where
  "NUM_HISTORICAL_SCHEMAS_TO_LOAD = 3"

subsection \<open>Resolving the target table\<close>

text \<open>
  \<^verbatim>\<open>
  if target_table_name is not None: ...
  else:
      all_schemas = tools.get_all_table_schemas(engine)
      if not all_schemas:
          raise ValueError("No tables found in database to choose from.")
      table_names = list(all_schemas.keys())
      ...
      user_selection = input("...").strip()
      if not user_selection or user_selection.lower() == 'none':
          raise ValueError(f"Process stopped: User confirmed no matching table.")
      if user_selection not in table_names:
          raise ValueError(f"Invalid table: '{user_selection}' is not in the database. Aborting.")
      target_table_name = user_selection
      inferred_table_name_sheet = target_table_name
  \<close>
  The result is the message of the exception, or the target table with the value of
  \<^verbatim>\<open>inferred_table_name_sheet\<close>, and the world after the step. \<^verbatim>\<open>input\<close> raises
  \<^verbatim>\<open>EOFError\<close> when no line is left.
\<close>

definition resolve_table ::
  "env \<Rightarrow> world \<Rightarrow> string option \<Rightarrow> (string + string \<times> string option) \<times> world" where
  "resolve_table e w user_provided_table_name =
     (case user_provided_table_name of
        Some target_table_name \<Rightarrow> (Inr (target_table_name, None), w)
      | None \<Rightarrow>
          (let all_schemas = all_table_schemas e; table_names = map fst all_schemas in
           if all_schemas = [] then
             (Inl ''No tables found in database to choose from.'', w)
           else
             (case stdin w of
                [] \<Rightarrow> (Inl ''EOF when reading a line'', w)
              | line # rest \<Rightarrow>
                  (let user_selection = strip line; w1 = w\<lparr>stdin := rest\<rparr> in
                   if user_selection = [] \<or> lower user_selection = ''none'' then
                     (Inl ''Process stopped: User confirmed no matching table.'', w1)
                   else if user_selection \<notin> set table_names then
                     (Inl (''Invalid table: '' @ quoted user_selection
                             @ '' is not in the database. Aborting.''), w1)
                   else (Inr (user_selection, Some user_selection), w1)))))"

subsection \<open>The steps after the table is known\<close>

text \<open>
  Steps 3 to 5 of \<^verbatim>\<open>run_validation_for_sheet\<close>: fetch the schema of the table, compare,
  ask for the schema analysis, rename the columns of \<^verbatim>\<open>df\<close> as the analysis says and
  run the two validators on the renamed frame, ask for rules, load the history, ask
  for the final report, and save the schema when the table name is not empty. The
  result is the message of the exception or the final report, with the value of
  \<^verbatim>\<open>schema_analysis_json\<close> at that moment (\<open>None\<close> for the empty dictionary).
  \<^verbatim>\<open>
  mapped_df = df.rename(columns=naming_mismatches)
  type_violations = tools.validate_data_types(mapped_df, db_schema)
  dq_violations = tools.run_data_quality_checks(mapped_df, db_schema, engine, target_table_name)
  \<close>
\<close>

definition after_resolution ::
  "env \<Rightarrow> world \<Rightarrow> dataframe \<Rightarrow> file_schema \<Rightarrow> string \<Rightarrow> string option \<Rightarrow> string \<Rightarrow> string
     \<Rightarrow> ((string + string) \<times> schema_analysis option) \<times> world" where
  "after_resolution e w df fs file_path sheet target_table_name now =
     (case get_db_schema e target_table_name of
        Inl err \<Rightarrow> ((Inl err, None), w)
      | Inr None \<Rightarrow>
          ((Inl (''Database table '' @ quoted target_table_name @ '' does not exist.''), None), w)
      | Inr (Some db) \<Rightarrow>
          (let raw_comparison = compare_schemas fs db in
           case llm_schema_analysis e db fs raw_comparison target_table_name (basename file_path) of
             NoAnswer \<Rightarrow> ((Inl ''Failed to get schema analysis from LLM.'', None), w)
           | NotJson \<Rightarrow> ((Inl ''LLM did not return valid JSON for schema analysis.'', None), w)
           | Json analysis \<Rightarrow>
               (let mapping = (case naming_mismatches analysis of None \<Rightarrow> [] | Some m \<Rightarrow> m);
                    mapped_df = rename mapping df;
                    type_violations = fst (validate_data_types mapped_df db);
                    dq_violations =
                      fst (run_data_quality_checks (conv e) mapped_df db
                             (get_check_constraints e target_table_name));
                    rules = (case llm_dynamic_rules e fs of
                               NoAnswer \<Rightarrow> NoRules | NotJson \<Rightarrow> RulesFailed | Json r \<Rightarrow> Rules r);
                    historical_schemas =
                      fst (load_historical_schemas (schema_history w) target_table_name
                             NUM_HISTORICAL_SCHEMAS_TO_LOAD);
                    metadata = \<lparr>fm_file_name = basename file_path, fm_sheet_name = sheet,
                                fm_total_rows = total_rows fs\<rparr>
                in case llm_final_report e metadata analysis type_violations dq_violations fs
                          historical_schemas rules of
                     NoAnswer \<Rightarrow> ((Inl ''Failed to get final report from LLM.'', Some analysis), w)
                   | NotJson \<Rightarrow>
                       ((Inl ''LLM did not return valid JSON for final report.'', Some analysis), w)
                   | Json r \<Rightarrow>
                       ((Inr r, Some analysis),
                        if target_table_name \<noteq> [] then
                          w\<lparr>schema_history :=
                              save_schema_to_history (schema_history w) target_table_name now fs\<rparr>
                        else w))))"

subsection \<open>One sheet\<close>

text \<open>
  \<^verbatim>\<open>
  try:
      file_schema = tools.extract_schema_from_df(df, file_path, sheet_name)
      if "error" in file_schema or not file_schema.get("columns"):
          raise ValueError(f"Schema extraction failed for sheet '{sheet_display_name}'")
      ...
  except Exception as e:
      sheet_report = {... "validation_summary": { "status": "Error", "details": str(e) }, ...}
  return sheet_report, schema_analysis_json, inferred_table_name_sheet
  \<close>
  The extractor is handed the caller's \<^verbatim>\<open>df\<close>, and the later steps work on the same
  object: on the frame the extractor returns.
\<close>

definition run_validation_for_sheet ::
  "env \<Rightarrow> world \<Rightarrow> dataframe \<Rightarrow> string \<Rightarrow> string option \<Rightarrow> string option \<Rightarrow> string
     \<Rightarrow> (sheet_report \<times> schema_analysis option \<times> string option) \<times> world" where
  "run_validation_for_sheet e w df0 file_path sheet user_provided_table_name now =
     (let sheet_display_name = (case sheet of None \<Rightarrow> ''CSV Data'' | Some n \<Rightarrow> n);
          extracted = extract_schema_from_df df0 file_path sheet;
          fs = fst extracted;
          df = snd extracted
      in if error fs \<noteq> None \<or> fs_columns fs = None \<or> fs_columns fs = Some [] then
           ((error_report file_path sheet
               (''Schema extraction failed for sheet '' @ quoted sheet_display_name),
             None, None), w)
         else
           (case resolve_table e w user_provided_table_name of
              (Inl err, w1) \<Rightarrow> ((error_report file_path sheet err, None, None), w1)
            | (Inr (target_table_name, inferred), w1) \<Rightarrow>
                (case after_resolution e w1 df fs file_path sheet target_table_name now of
                   ((Inl err, analysis), w2) \<Rightarrow>
                     ((error_report file_path sheet err, analysis, inferred), w2)
                 | ((Inr r, analysis), w2) \<Rightarrow> ((FinalReport r, analysis, inferred), w2))))"

subsection \<open>All sheets\<close>

text \<open>
  A sheet as the loop of \<^verbatim>\<open>run_multi_sheet_validation\<close> meets it: its name (\<open>None\<close>
  for the one table of a CSV file), the data frame \<^verbatim>\<open>pd.read_excel\<close> or
  \<^verbatim>\<open>pd.read_csv\<close> loads (\<open>None\<close> when loading raises), and the formatted time at which
  its schema would be saved.
  \<^verbatim>\<open>
  for sheet_name in sheet_names:
      try:
          current_df = pd.read_excel(...) if is_excel else pd.read_csv(file_path)
          sheet_report, schema_analysis_json, inferred_table = run_validation_for_sheet(...)
          report_key = sheet_name if sheet_name is not None else "csv_data"
          sheet_report["schema_analysis_report"] = schema_analysis_json
          all_sheet_reports[report_key] = sheet_report
          if not inferred_target_table and inferred_table: inferred_target_table = inferred_table
      except Exception as e:
          logging.error(...)
  \<close>
\<close>

type_synonym sheet = "string option \<times> dataframe option \<times> string"

record sheet_entry =
  report :: sheet_report
  schema_analysis_report :: "schema_analysis option"

definition report_key :: "string option \<Rightarrow> string" where
  "report_key sheet = (case sheet of None \<Rightarrow> ''csv_data'' | Some n \<Rightarrow> n)"

definition truthy :: "string option \<Rightarrow> bool" where
  "truthy x = (x \<noteq> None \<and> x \<noteq> Some [])"

type_synonym loop_state = "(string \<times> sheet_entry) list \<times> string option \<times> world"

definition process_sheet ::
  "env \<Rightarrow> string \<Rightarrow> string option \<Rightarrow> sheet \<Rightarrow> loop_state \<Rightarrow> loop_state" where
  "process_sheet e file_path user_provided_table_name sh st =
     (case st of (all_sheet_reports, inferred_target_table, w) \<Rightarrow>
      case sh of (sheet, loaded, now) \<Rightarrow>
      case loaded of
        None \<Rightarrow> st
      | Some current_df \<Rightarrow>
          (case run_validation_for_sheet e w current_df file_path sheet
                  user_provided_table_name now of
             ((sheet_report, analysis, inferred_table), w1) \<Rightarrow>
               (AList.update (report_key sheet)
                  \<lparr>report = sheet_report, schema_analysis_report = analysis\<rparr> all_sheet_reports,
                if \<not> truthy inferred_target_table \<and> truthy inferred_table
                then inferred_table else inferred_target_table,
                w1)))"

definition run_sheets ::
  "env \<Rightarrow> string \<Rightarrow> string option \<Rightarrow> sheet list \<Rightarrow> loop_state \<Rightarrow> loop_state" where
  "run_sheets e file_path user_provided_table_name sheets st =
     fold (process_sheet e file_path user_provided_table_name) sheets st"

text \<open>
  The report of the run. For a workbook the sheets' reports are listed under
  \<^verbatim>\<open>sheet_validation_results\<close>; for a CSV file the one report is merged into the top
  level. \<^verbatim>\<open>Processed_at\<close> is left out. A workbook that cannot be opened or has no
  sheet gives no report.
\<close>

record final_output =
  User_file_name :: string
  user_provided_target_table :: "string option"
  inferred_target_table :: "string option"
  sheet_validation_results :: "(string \<times> sheet_entry) list option"
  csv_report :: "sheet_entry option"

definition is_excel :: "string \<Rightarrow> bool" where
  "is_excel file_path = (ends_with ''.xls'' file_path \<or> ends_with ''.xlsx'' file_path)"

definition run_multi_sheet_validation ::
  "env \<Rightarrow> world \<Rightarrow> string \<Rightarrow> string option \<Rightarrow> sheet list option
     \<Rightarrow> final_output option \<times> world" where
  "run_multi_sheet_validation e w file_path user_provided_table_name source =
     (case source of
        None \<Rightarrow> (None, w)
      | Some sheets \<Rightarrow>
          if is_excel file_path \<and> sheets = [] then (None, w)
          else
            (case run_sheets e file_path user_provided_table_name sheets ([], None, w) of
               (all_sheet_reports, inferred, w1) \<Rightarrow>
                 (Some \<lparr>User_file_name = basename file_path,
                        user_provided_target_table = user_provided_table_name,
                        inferred_target_table = inferred,
                        sheet_validation_results =
                          (if is_excel file_path then Some all_sheet_reports else None),
                        csv_report =
                          (if is_excel file_path then None
                           else map_of all_sheet_reports ''csv_data'')\<rparr>, w1)))"

section \<open>Notions of the specification\<close>

text \<open>
  The comparison a CHECK constraint asks for, in the words of the specification: the
  value \<open>y\<close> of a row satisfies \<open>column operator x\<close>.
\<close>

definition satisfies :: "string \<Rightarrow> rat \<Rightarrow> rat \<Rightarrow> bool" where
  "satisfies operator x y =
     ((operator = ''>'' \<and> y > x) \<or> (operator = ''>='' \<and> y \<ge> x)
      \<or> (operator = ''<'' \<and> y < x) \<or> (operator = ''<='' \<and> y \<le> x)
      \<or> (operator = ''='' \<and> y = x) \<or> (operator = ''!='' \<and> y \<noteq> x))"

text \<open>A row that was coerced to a number and fails the comparison.\<close>

definition coerced_and_failing :: "(cell \<Rightarrow> rat option) \<Rightarrow> string \<Rightarrow> rat \<Rightarrow> cell \<Rightarrow> bool" where
  "coerced_and_failing cv operator x c =
     (case to_numeric cv c of None \<Rightarrow> False | Some y \<Rightarrow> \<not> satisfies operator x y)"



section \<open>Concrete inputs\<close>





definition df_dates :: dataframe where
  "df_dates = \<lparr>index = [0, 1],
      columns = [(''OrderDate'', \<lparr>dtype = ''object'', vals = [StrV ''2024-01-05'', StrV ''2024-01-06'']\<rparr>),
                 (''Region'', \<lparr>dtype = ''object'', vals = [StrV ''N'', StrV ''S'']\<rparr>),
                 (''Quantity'', \<lparr>dtype = ''object'', vals = [StrV ''5'', StrV ''six'']\<rparr>)]\<rparr>"

definition db_dates :: db_schema where
  "db_dates = [(''OrderDate'', \<lparr>db_type = ''DATETIME'', nullable = True, primary_key = False\<rparr>),
               (''Region'', \<lparr>db_type = ''GEOGRAPHY(4326)'', nullable = True, primary_key = False\<rparr>),
               (''Quantity'', \<lparr>db_type = ''INTEGER'', nullable = True, primary_key = False\<rparr>)]"

definition df_duplicate :: dataframe where
  "df_duplicate = \<lparr>index = [0, 1, 2],
      columns = [(''OrderID'', \<lparr>dtype = ''object'', vals = [StrV ''A'', StrV ''A'', Null]\<rparr>),
                 (''OrderID'', \<lparr>dtype = ''int64'', vals = [IntV 1, IntV 2, IntV 3]\<rparr>),
                 (''Quantity'', \<lparr>dtype = ''object'', vals = [StrV ''5'', StrV ''six'', Null]\<rparr>)]\<rparr>"

definition db_duplicate :: db_schema where
  "db_duplicate = [(''OrderID'', \<lparr>db_type = ''INTEGER'', nullable = False, primary_key = True\<rparr>),
               (''Quantity'', \<lparr>db_type = ''INTEGER'', nullable = False, primary_key = False\<rparr>)]"

text \<open>A parser that takes no string and no timestamp for a number.\<close>

definition no_conv :: "cell \<Rightarrow> rat option" where
  "no_conv c = None"

text \<open>
  A parser for the examples: a string of digits is its number, any other string and any
  timestamp is no number.
\<close>

definition digits_conv :: "cell \<Rightarrow> rat option" where
  "digits_conv c =
     (case c of
        StrV s \<Rightarrow> if s \<noteq> [] \<and> list_all is_digit s then Some (of_nat (digits_value s)) else None
      | _ \<Rightarrow> None)"

definition df_quantity_mixed :: dataframe where
  "df_quantity_mixed = \<lparr>index = [0, 1, 2, 3],
      columns = [(''Quantity'', \<lparr>dtype = ''object'',
                                  vals = [IntV 5, IntV 0, IntV (- 1), StrV ''abc'']\<rparr>)]\<rparr>"

definition df_quantity_numbers :: dataframe where
  "df_quantity_numbers = \<lparr>index = [0, 1, 2],
      columns = [(''Quantity'', \<lparr>dtype = ''int64'', vals = [IntV 5, IntV 0, IntV (- 1)]\<rparr>)]\<rparr>"

definition db_quantity :: db_schema where
  "db_quantity = [(''Quantity'', \<lparr>db_type = ''INTEGER'', nullable = True, primary_key = False\<rparr>)]"

definition ck_quantity :: check_constraint where
  "ck_quantity = \<lparr>cname = Some ''ck_quantity'', sqltext = Some ''Quantity > 0''\<rparr>"

definition df_quantity_blank :: dataframe where
  "df_quantity_blank = \<lparr>index = [0, 1, 2],
      columns = [(''Quantity'', \<lparr>dtype = ''object'', vals = [StrV ''5'', Null, StrV '''']\<rparr>)]\<rparr>"

definition db_quantity_required :: db_schema where
  "db_quantity_required =
     [(''Quantity'', \<lparr>db_type = ''INTEGER'', nullable = False, primary_key = False\<rparr>)]"







definition df_only_blank :: dataframe where
  "df_only_blank = \<lparr>index = [0, 1],
      columns = [(''OrderID'', \<lparr>dtype = ''float64'', vals = [Null, Null]\<rparr>),
                 (''Quantity'', \<lparr>dtype = ''object'', vals = [Null, Null]\<rparr>)]\<rparr>"

definition df_orders :: dataframe where
  "df_orders = \<lparr>index = [0, 1],
      columns = [(''OrderID'', \<lparr>dtype = ''int64'', vals = [IntV 1, IntV 2]\<rparr>),
                 (''Quantity'', \<lparr>dtype = ''int64'', vals = [IntV 5, IntV 0]\<rparr>)]\<rparr>"

text \<open>
  A database with the tables Orders and Customers, and a language model that answers
  every request with the same analysis and the same report.
\<close>

definition env_two_tables :: env where
  "env_two_tables =
     \<lparr>all_table_schemas =
        [(''Orders'', [(''OrderID'', ''INTEGER''), (''Quantity'', ''INTEGER'')]),
         (''Customers'', [(''CustomerID'', ''INTEGER'')])],
      get_db_schema = (\<lambda>t. if t = ''Orders''
         then Inr (Some [(''OrderID'', \<lparr>db_type = ''INTEGER'', nullable = False, primary_key = True\<rparr>),
                         (''Quantity'', \<lparr>db_type = ''INTEGER'', nullable = True, primary_key = False\<rparr>)])
         else Inr None),
      get_check_constraints = (\<lambda>t. Some []),
      conv = digits_conv,
      llm_schema_analysis = (\<lambda>db fs raw t f. Json \<lparr>naming_mismatches = None, analysis_text = ''{}''\<rparr>),
      llm_dynamic_rules = (\<lambda>fs. NoAnswer),
      llm_final_report = (\<lambda>m a tv dq fs h r. Json ''{}'')\<rparr>"

definition world_start :: world where
  "world_start = \<lparr>stdin = ['' Invoices '', ''Orders''], schema_history = []\<rparr>"

section \<open>Properties of SchemaComparator\<close>







section \<open>Properties of TypeValidator and of the treatment of duplicate columns\<close>

lemma sql_to_pandas_map_eq:
  "sql_to_pandas_map =
     [(''INTEGER'', ''int64''), (''INT'', ''int64''), (''REAL'', ''float64''),
      (''FLOAT'', ''float64''), (''NUMERIC'', ''float64''), (''TEXT'', ''object''),
      (''VARCHAR'', ''object''), (''CHAR'', ''object''), (''DATE'', ''datetime64[ns]''),
      (''DATETIME'', ''datetime64[ns]''), (''TIMESTAMP'', ''datetime64[ns]''),
      (''BOOLEAN'', ''bool''), (''BOOL'', ''bool'')]"
  by code_simp

lemma temporal_expected:
  "base \<in> set [''DATE'', ''DATETIME'', ''TIMESTAMP'']
     \<Longrightarrow> map_of sql_to_pandas_map base = Some ''datetime64[ns]''"
  unfolding sql_to_pandas_map_eq by auto

lemma validate_column_names:
  "v \<in> set (fst (validate_column df e)) \<Longrightarrow> tv_column v = fst e"
  by (auto simp: validate_column_def Let_def split: list.splits option.splits if_splits)

lemma validate_data_types_violations:
  "set (fst (validate_data_types df db)) = (\<Union>e \<in> set db. set (fst (validate_column df e)))"
  by (simp add: validate_data_types_def Let_def)

lemma validate_data_types_log:
  "set (snd (validate_data_types df db)) = (\<Union>e \<in> set db. set (snd (validate_column df e)))"
  by (simp add: validate_data_types_def Let_def)

lemma validate_column_temporal_text:
  assumes "db_type_base d \<in> set [''DATE'', ''DATETIME'', ''TIMESTAMP'']"
    and "named df c = [col]" and "dtype col = ''object''"
  shows "validate_column df (c, d) = ([], [])"
  using assms temporal_expected [OF assms(1)]
  by (simp add: validate_column_def Let_def)

lemma validate_column_unknown:
  assumes "map_of sql_to_pandas_map (db_type_base d) = None" and "named df c = [col]"
  shows "validate_column df (c, d) = ([], [UnknownDbTypeWarning (db_type_base d) c])"
  using assms by (simp add: validate_column_def Let_def)

lemma only_entry:
  assumes "distinct (map fst db)" and "(c, d) \<in> set db" and "e \<in> set db" and "fst e = c"
  shows "e = (c, d)"
  using assms by (metis eq_key_imp_eq_value prod.collapse)

text \<open>
  Claim C7. Let a column of the DB schema (a dictionary: its names are distinct) be
  matched by one column of the data frame. If its declared base type is \<^verbatim>\<open>DATE\<close>,
  \<^verbatim>\<open>DATETIME\<close> or \<^verbatim>\<open>TIMESTAMP\<close> and the dtype of the file column is \<^verbatim>\<open>object\<close>, the
  validator emits no type violation for it; and if its declared base type is absent
  from the type-compatibility table, the validator emits no violation for it and logs
  a warning that names the base type and the column.
\<close>

theorem temporal_text_and_unknown_types_not_flagged:
  assumes "distinct (map fst db)" and "(c, d) \<in> set db" and "named df c = [col]"
  shows "(db_type_base d \<in> set [''DATE'', ''DATETIME'', ''TIMESTAMP'']
            \<and> dtype col = ''object''
          \<longrightarrow> (\<forall>v \<in> set (fst (validate_data_types df db)). tv_column v \<noteq> c))
       \<and> (map_of sql_to_pandas_map (db_type_base d) = None
          \<longrightarrow> (\<forall>v \<in> set (fst (validate_data_types df db)). tv_column v \<noteq> c)
              \<and> UnknownDbTypeWarning (db_type_base d) c \<in> set (snd (validate_data_types df db)))"
proof (intro conjI impI ballI)
  fix v assume t: "db_type_base d \<in> set [''DATE'', ''DATETIME'', ''TIMESTAMP''] \<and> dtype col = ''object''"
    and v: "v \<in> set (fst (validate_data_types df db))"
  from v obtain e where e: "e \<in> set db" "v \<in> set (fst (validate_column df e))"
    unfolding validate_data_types_violations by blast
  show "tv_column v \<noteq> c"
  proof
    assume "tv_column v = c"
    with validate_column_names [OF e(2)] have "fst e = c" by simp
    with only_entry [OF assms(1,2) e(1)] have "e = (c, d)" by simp
    with e(2) validate_column_temporal_text [OF _ assms(3), of d] t show False by simp
  qed
next
  fix v assume u: "map_of sql_to_pandas_map (db_type_base d) = None"
    and v: "v \<in> set (fst (validate_data_types df db))"
  from v obtain e where e: "e \<in> set db" "v \<in> set (fst (validate_column df e))"
    unfolding validate_data_types_violations by blast
  show "tv_column v \<noteq> c"
  proof
    assume "tv_column v = c"
    with validate_column_names [OF e(2)] have "fst e = c" by simp
    with only_entry [OF assms(1,2) e(1)] have "e = (c, d)" by simp
    with e(2) validate_column_unknown [OF u assms(3)] show False by simp
  qed
next
  assume u: "map_of sql_to_pandas_map (db_type_base d) = None"
  have "UnknownDbTypeWarning (db_type_base d) c \<in> set (snd (validate_column df (c, d)))"
    using validate_column_unknown [OF u assms(3)] by simp
  with assms(2) show "UnknownDbTypeWarning (db_type_base d) c \<in> set (snd (validate_data_types df db))"
    unfolding validate_data_types_log by blast
qed

lemma validate_df_dates:
  "validate_data_types df_dates db_dates =
     ([\<lparr>tv_column = ''Quantity'', expected_db_type = ''INTEGER'', found_file_type = ''object''\<rparr>],
      [UnknownDbTypeWarning ''GEOGRAPHY'' ''Region''])"
  by code_simp

lemma check_one_constraint_names:
  "v \<in> set (fst (check_one_constraint df c col ncol isn k)) \<Longrightarrow> dq_column v = c"
  by (auto simp: check_one_constraint_def Let_def split: option.splits if_splits prod.splits)

lemma check_column_names:
  "v \<in> set (fst (check_column cv df cs e)) \<Longrightarrow> dq_column v = fst e"
  by (auto simp: check_column_def Let_def null_check_def primary_key_check_def
      constraint_check_def dest: check_one_constraint_names split: list.splits if_splits)

lemma run_data_quality_checks_violations:
  "set (fst (run_data_quality_checks cv df db fetched))
     = (\<Union>e \<in> set db. set (fst (check_column cv df (case fetched of None \<Rightarrow> [] | Some cs \<Rightarrow> cs) e)))"
  by (simp add: run_data_quality_checks_def Let_def)

lemma duplicate_rounds:
  assumes "2 \<le> length (named df c)"
  shows "validate_column df (c, d) = ([], [DuplicateColumnWarning c])"
    and "check_column cv df cs (c, d) = ([], [DuplicateColumnWarning c])"
proof -
  from assms obtain a b rest where "named df c = a # b # rest"
    by (cases "named df c"; cases "tl (named df c)") auto
  then show "validate_column df (c, d) = ([], [DuplicateColumnWarning c])"
    and "check_column cv df cs (c, d) = ([], [DuplicateColumnWarning c])"
    by (simp_all add: validate_column_def check_column_def)
qed

text \<open>
  Claim C8. For every column name that more than one column of the (remapped) data
  frame carries, TypeValidator emits no type violation for that name and
  DataQualityChecker emits no violation of any kind for it, whatever the DB schema and
  the CHECK constraints are.
\<close>

theorem duplicate_column_skipped:
  assumes "2 \<le> length (named df c)"
  shows "(\<forall>v \<in> set (fst (validate_data_types df db)). tv_column v \<noteq> c)
       \<and> (\<forall>v \<in> set (fst (run_data_quality_checks cv df db fetched)). dq_column v \<noteq> c)"
proof (intro conjI ballI)
  fix v assume "v \<in> set (fst (validate_data_types df db))"
  then obtain e where e: "e \<in> set db" "v \<in> set (fst (validate_column df e))"
    unfolding validate_data_types_violations by blast
  show "tv_column v \<noteq> c"
  proof
    assume "tv_column v = c"
    with validate_column_names [OF e(2)] have "e = (c, snd e)" by simp
    with e(2) duplicate_rounds(1) [OF assms, of "snd e"] show False by simp
  qed
next
  fix v assume "v \<in> set (fst (run_data_quality_checks cv df db fetched))"
  then obtain e where e: "e \<in> set db"
      "v \<in> set (fst (check_column cv df (case fetched of None \<Rightarrow> [] | Some cs \<Rightarrow> cs) e))"
    unfolding run_data_quality_checks_violations by blast
  show "dq_column v \<noteq> c"
  proof
    assume "dq_column v = c"
    with check_column_names [OF e(2)] have "e = (c, snd e)" by simp
    with e(2) duplicate_rounds(2) [OF assms, of cv _ "snd e"] show False by simp
  qed
qed

text \<open>
  A witness for C7: a \<^verbatim>\<open>DATETIME\<close> column read as text and a column of the unknown
  type \<^verbatim>\<open>GEOGRAPHY(4326)\<close>, beside an \<^verbatim>\<open>INTEGER\<close> column read as text.
\<close>

theorem temporal_text_and_unknown_types_not_flagged_witness:
  "distinct (map fst db_dates)
   \<and> (''OrderDate'', \<lparr>db_type = ''DATETIME'', nullable = True, primary_key = False\<rparr>) \<in> set db_dates
   \<and> named df_dates ''OrderDate''
        = [\<lparr>dtype = ''object'', vals = [StrV ''2024-01-05'', StrV ''2024-01-06'']\<rparr>]
   \<and> db_type_base \<lparr>db_type = ''DATETIME'', nullable = True, primary_key = False\<rparr> = ''DATETIME''
   \<and> ''OrderDate'' \<notin> tv_column ` set (fst (validate_data_types df_dates db_dates))
   \<and> (''Region'', \<lparr>db_type = ''GEOGRAPHY(4326)'', nullable = True, primary_key = False\<rparr>) \<in> set db_dates
   \<and> named df_dates ''Region'' = [\<lparr>dtype = ''object'', vals = [StrV ''N'', StrV ''S'']\<rparr>]
   \<and> map_of sql_to_pandas_map
        (db_type_base \<lparr>db_type = ''GEOGRAPHY(4326)'', nullable = True, primary_key = False\<rparr>) = None
   \<and> ''Region'' \<notin> tv_column ` set (fst (validate_data_types df_dates db_dates))
   \<and> UnknownDbTypeWarning ''GEOGRAPHY'' ''Region'' \<in> set (snd (validate_data_types df_dates db_dates))"
proof -
  let ?d1 = "\<lparr>db_type = ''DATETIME'', nullable = True, primary_key = False\<rparr>"
  let ?d2 = "\<lparr>db_type = ''GEOGRAPHY(4326)'', nullable = True, primary_key = False\<rparr>"
  let ?c1 = "\<lparr>dtype = ''object'', vals = [StrV ''2024-01-05'', StrV ''2024-01-06'']\<rparr>"
  let ?c2 = "\<lparr>dtype = ''object'', vals = [StrV ''N'', StrV ''S'']\<rparr>"
  have dist: "distinct (map fst db_dates)" by (simp add: db_dates_def)
  have m1: "(''OrderDate'', ?d1) \<in> set db_dates" by (simp add: db_dates_def)
  have m2: "(''Region'', ?d2) \<in> set db_dates" by (simp add: db_dates_def)
  have n1: "named df_dates ''OrderDate'' = [?c1]" by (simp add: df_dates_def named_def)
  have n2: "named df_dates ''Region'' = [?c2]" by (simp add: df_dates_def named_def)
  have b1: "db_type_base ?d1 = ''DATETIME''" by code_simp
  have b2: "db_type_base ?d2 = ''GEOGRAPHY''" by code_simp
  have u2: "map_of sql_to_pandas_map (db_type_base ?d2) = None"
    unfolding b2 sql_to_pandas_map_eq by simp
  have r1: "''OrderDate'' \<notin> tv_column ` set (fst (validate_data_types df_dates db_dates))"
    using temporal_text_and_unknown_types_not_flagged [OF dist m1 n1] b1 by auto
  have r2: "''Region'' \<notin> tv_column ` set (fst (validate_data_types df_dates db_dates))
      \<and> UnknownDbTypeWarning ''GEOGRAPHY'' ''Region'' \<in> set (snd (validate_data_types df_dates db_dates))"
    using temporal_text_and_unknown_types_not_flagged [OF dist m2 n2] u2 b2 by auto
  show ?thesis using dist m1 m2 n1 n2 b1 u2 r1 r2 by blast
qed

text \<open>
  A witness for C8: two columns named OrderID, one of them with a missing value and a
  repeated key, under a non-nullable primary-key column OrderID.
\<close>

theorem duplicate_column_skipped_witness:
  "2 \<le> length (named df_duplicate ''OrderID'')
   \<and> ''OrderID'' \<notin> tv_column ` set (fst (validate_data_types df_duplicate db_duplicate))
   \<and> ''OrderID'' \<notin> dq_column `
         set (fst (run_data_quality_checks no_conv df_duplicate db_duplicate (Some [])))
   \<and> (''OrderID'', \<lparr>db_type = ''INTEGER'', nullable = False, primary_key = True\<rparr>) \<in> set db_duplicate"
proof -
  have l: "2 \<le> length (named df_duplicate ''OrderID'')"
    by (simp add: df_duplicate_def named_def)
  have m: "(''OrderID'', \<lparr>db_type = ''INTEGER'', nullable = False, primary_key = True\<rparr>) \<in> set db_duplicate"
    by (simp add: db_duplicate_def)
  show ?thesis
    using l m duplicate_column_skipped [OF l, of db_duplicate no_conv "Some []"] by auto
qed

section \<open>Properties of DataQualityChecker\<close>

lemma object_is_text: "\<not> is_numeric_dtype ''object''" "\<not> is_datetime64_any_dtype ''object''"
  by (simp_all add: is_numeric_dtype_def is_datetime64_any_dtype_def starts_with_def)

lemma null_check_counts_nulls_only:
  "null_check df c d col =
     (if \<not> nullable d \<and> 0 < count_where (\<lambda>v. v = Null) (vals col)
      then [not_null_violation c (count_where (\<lambda>v. v = Null) (vals col))
              (take 5 (pick (map (\<lambda>v. v = Null \<or> (dtype col = ''object'' \<and> v = StrV [])) (vals col))
                            (index df)))]
      else [])"
  using object_is_text by (auto simp: null_check_def Let_def)

text \<open>
  Claim C2 at a non-nullable \<^verbatim>\<open>INTEGER\<close> column read as text (dtype \<^verbatim>\<open>object\<close>) that
  holds a number, one missing value and one empty string: the checker reports a
  \<^verbatim>\<open>not_null_violation\<close> with count 1, while the sample of affected rows names both
  the row of the missing value and the row of the empty string. The branch that adds
  the empty strings asks for a numeric or temporal dtype and then for the dtype
  \<^verbatim>\<open>object\<close>, so it never runs (\<open>null_check_counts_nulls_only\<close>).
\<close>

theorem empty_string_not_counted:
  "fst (run_data_quality_checks digits_conv df_quantity_blank db_quantity_required (Some []))
     = [not_null_violation ''Quantity'' 1 [1, 2]]"
  by code_simp

text \<open>For C2, read off the evaluation above: no violation with count 2 is reported.\<close>

theorem empty_string_not_counted_witness:
  "\<not> (\<exists>idx. not_null_violation ''Quantity'' 2 idx
         \<in> set (fst (run_data_quality_checks digits_conv df_quantity_blank db_quantity_required (Some []))))"
  using empty_string_not_counted by simp

lemma match_operator_ops:
  "match_operator ops s = Some (operator, x) \<Longrightarrow> operator \<in> set ops"
  by (induction ops) (auto split: if_splits option.splits)

lemma first_some_Some:
  "first_some f xs = Some y \<Longrightarrow> \<exists>x \<in> set xs. f x = Some y"
proof -
  assume "first_some f xs = Some y"
  then have "y \<in> set (List.map_filter f xs)"
    by (auto simp: first_some_def split: list.splits)
  then show ?thesis
    by (auto simp: List.map_filter_def)
qed

lemma match_check_ops:
  assumes "match_check c t = Some (operator, x)"
  shows "operator \<in> set [''>='', ''<='', ''>'', ''<'', ''!='', ''='']"
proof -
  from first_some_Some [OF assms [unfolded match_check_def]]
  obtain s0 where "match_after_name (drop (length c) s0) = Some (operator, x)"
    by (auto split: if_splits)
  from first_some_Some [OF this [unfolded match_after_name_def]]
  obtain s1 where "match_operator [''>='', ''<='', ''>'', ''<'', ''!='', ''='']
      (dropWhile is_space s1) = Some (operator, x)" by auto
  then show ?thesis by (rule match_operator_ops)
qed

lemma violates_iff:
  assumes "operator \<in> set [''>='', ''<='', ''>'', ''<'', ''!='', ''='']"
  shows "violates operator x y = (\<not> satisfies operator x y)"
proof -
  from assms consider "operator = ''>=''" | "operator = ''<=''" | "operator = ''>''"
    | "operator = ''<''" | "operator = ''!=''" | "operator = ''=''" by auto
  then show ?thesis
    by cases (simp_all add: violates_def satisfies_def not_less not_le)
qed

lemma violated_rows_eq:
  assumes "operator \<in> set [''>='', ''<='', ''>'', ''<'', ''!='', ''='']"
  shows "violated_rows operator x (map (to_numeric cv) cells)
           = map (coerced_and_failing cv operator x) cells"
  using violates_iff [OF assms]
  by (auto simp: violated_rows_def coerced_and_failing_def split: option.splits)

lemma count_where_map: "count_where (\<lambda>b. b) (map P xs) = count_where P xs"
  by (induction xs) (auto simp: count_where_def)

lemma check_one_constraint_eq:
  assumes "match_check c (strip (get_sqltext k)) = Some (operator, x)"
  shows "check_one_constraint df c col (map (to_numeric cv) (vals col))
           (list_all (\<lambda>n. n \<noteq> None) (map (to_numeric cv) (vals col))) k
         = (if list_all (\<lambda>v. to_numeric cv v \<noteq> None) (vals col) then
              (if 0 < count_where (coerced_and_failing cv operator x) (vals col) then
                 ([check_constraint_violation c (cname k) (strip (get_sqltext k))
                     (count_where (coerced_and_failing cv operator x) (vals col))
                     (take 5 (pick (map (coerced_and_failing cv operator x) (vals col)) (index df)))
                     (take 5 (pick (map (coerced_and_failing cv operator x) (vals col)) (vals col)))],
                  [])
               else ([], []))
            else ([], [SkippedCheckConstraintInfo c (strip (get_sqltext k))]))"
  using assms violated_rows_eq [OF match_check_ops [OF assms], where cv = cv and cells = "vals col" and x = x]
  by (simp add: check_one_constraint_def Let_def count_where_map list_all_iff)

lemma check_one_constraint_unmatched:
  assumes "match_check c (strip (get_sqltext k)) = None"
  shows "fst (check_one_constraint df c col ncol isn k) = []"
  using assms by (simp add: check_one_constraint_def)

lemma constraint_check_violations:
  "set (fst (constraint_check cv df c col cs))
     = (\<Union>k \<in> {k \<in> set cs. contains c (get_sqltext k)}.
          set (fst (check_one_constraint df c col (map (to_numeric cv) (vals col))
                      (list_all (\<lambda>n. n \<noteq> None) (map (to_numeric cv) (vals col))) k)))"
  by (auto simp: constraint_check_def Let_def)

lemma check_violation_in_column:
  assumes "named df c = [col]"
  shows "check_constraint_violation c' nm t n idx vs \<in> set (fst (check_column cv df cs (c, d)))
         \<longleftrightarrow> check_constraint_violation c' nm t n idx vs \<in> set (fst (constraint_check cv df c col cs))"
  using assms
  by (auto simp: check_column_def Let_def null_check_def primary_key_check_def)

text \<open>
  What the checker does with the CHECK constraints of a column. Let a column of the DB
  schema (a dictionary: its names are distinct) be matched by one column of the data
  frame, and let the column be coerced to numbers. When every value of the column is
  coerced, each CHECK constraint whose text contains the column name and matches the
  single-column numeric comparison gives a \<^verbatim>\<open>check_constraint_violation\<close> whose count
  is the number of rows failing the comparison, provided that number is positive.
  Conversely every \<^verbatim>\<open>check_constraint_violation\<close> reported for the column comes from
  such a constraint, carries that count, and is reported only when every value of the
  column was coerced: a column with a value that is not coerced (a missing value, a
  string that is no number) has the constraint skipped and gives no violation of this
  kind.
\<close>

lemma check_constraint_counts_coerced_rows:
  assumes "distinct (map fst db)" and "(c, d) \<in> set db" and "named df c = [col]"
  shows "(\<forall>k operator x.
            k \<in> set cs \<and> contains c (get_sqltext k)
            \<and> match_check c (strip (get_sqltext k)) = Some (operator, x)
            \<and> list_all (\<lambda>v. to_numeric cv v \<noteq> None) (vals col)
            \<and> 0 < count_where (coerced_and_failing cv operator x) (vals col)
            \<longrightarrow> check_constraint_violation c (cname k) (strip (get_sqltext k))
                  (count_where (coerced_and_failing cv operator x) (vals col))
                  (take 5 (pick (map (coerced_and_failing cv operator x) (vals col)) (index df)))
                  (take 5 (pick (map (coerced_and_failing cv operator x) (vals col)) (vals col)))
                \<in> set (fst (run_data_quality_checks cv df db (Some cs))))
       \<and> (\<forall>nm t n idx vs.
            check_constraint_violation c nm t n idx vs
              \<in> set (fst (run_data_quality_checks cv df db fetched))
            \<longrightarrow> list_all (\<lambda>v. to_numeric cv v \<noteq> None) (vals col)
                \<and> (\<exists>k operator x.
                      k \<in> set (case fetched of None \<Rightarrow> [] | Some cs \<Rightarrow> cs)
                      \<and> contains c (get_sqltext k) \<and> t = strip (get_sqltext k)
                      \<and> match_check c t = Some (operator, x)
                      \<and> n = count_where (coerced_and_failing cv operator x) (vals col)
                      \<and> 0 < n))"
proof (intro conjI allI impI)
  fix k operator x
  assume h: "k \<in> set cs \<and> contains c (get_sqltext k)
            \<and> match_check c (strip (get_sqltext k)) = Some (operator, x)
            \<and> list_all (\<lambda>v. to_numeric cv v \<noteq> None) (vals col)
            \<and> 0 < count_where (coerced_and_failing cv operator x) (vals col)"
  let ?v = "check_constraint_violation c (cname k) (strip (get_sqltext k))
              (count_where (coerced_and_failing cv operator x) (vals col))
              (take 5 (pick (map (coerced_and_failing cv operator x) (vals col)) (index df)))
              (take 5 (pick (map (coerced_and_failing cv operator x) (vals col)) (vals col)))"
  from h have m: "match_check c (strip (get_sqltext k)) = Some (operator, x)" by simp
  have "?v \<in> set (fst (check_one_constraint df c col (map (to_numeric cv) (vals col))
                      (list_all (\<lambda>n. n \<noteq> None) (map (to_numeric cv) (vals col))) k))"
    unfolding check_one_constraint_eq [OF m] using h by simp
  with h have "?v \<in> set (fst (constraint_check cv df c col cs))"
    unfolding constraint_check_violations by blast
  then have "?v \<in> set (fst (check_column cv df cs (c, d)))"
    using check_violation_in_column [OF assms(3)] by simp
  with assms(2) show "?v \<in> set (fst (run_data_quality_checks cv df db (Some cs)))"
    unfolding run_data_quality_checks_violations by force
next
  fix nm t n idx vs
  let ?cs = "case fetched of None \<Rightarrow> [] | Some cs \<Rightarrow> cs"
  let ?v = "check_constraint_violation c nm t n idx vs"
  assume "?v \<in> set (fst (run_data_quality_checks cv df db fetched))"
  then obtain e where e: "e \<in> set db" "?v \<in> set (fst (check_column cv df ?cs e))"
    unfolding run_data_quality_checks_violations by blast
  from check_column_names [OF e(2)] have "fst e = c" by simp
  with only_entry [OF assms(1,2) e(1)] have "e = (c, d)" by simp
  with e(2) have "?v \<in> set (fst (constraint_check cv df c col ?cs))"
    using check_violation_in_column [OF assms(3)] by simp
  then obtain k where k: "k \<in> set ?cs" "contains c (get_sqltext k)"
    "?v \<in> set (fst (check_one_constraint df c col (map (to_numeric cv) (vals col))
                      (list_all (\<lambda>n. n \<noteq> None) (map (to_numeric cv) (vals col))) k))"
    unfolding constraint_check_violations by blast
  from k(3) check_one_constraint_unmatched
  obtain operator x where m: "match_check c (strip (get_sqltext k)) = Some (operator, x)"
    by (cases "match_check c (strip (get_sqltext k))") fastforce+
  from k(3) have r: "list_all (\<lambda>v. to_numeric cv v \<noteq> None) (vals col)
      \<and> t = strip (get_sqltext k)
      \<and> n = count_where (coerced_and_failing cv operator x) (vals col) \<and> 0 < n"
    unfolding check_one_constraint_eq [OF m] by (auto split: if_splits)
  then show "list_all (\<lambda>v. to_numeric cv v \<noteq> None) (vals col)" by simp
  from r k(1,2) m
  show "\<exists>k operator x. k \<in> set ?cs \<and> contains c (get_sqltext k) \<and> t = strip (get_sqltext k)
      \<and> match_check c t = Some (operator, x)
      \<and> n = count_where (coerced_and_failing cv operator x) (vals col) \<and> 0 < n"
    by blast
qed

lemma quantity_match: "match_check ''Quantity'' (strip (get_sqltext ck_quantity)) = Some (''>'', 0)"
  by code_simp

text \<open>
  On a column in which every value is a number the count is right: \<^verbatim>\<open>Quantity > 0\<close>
  against the values 5, 0, -1 gives a violation with count 2, at the rows labelled 1
  and 2.
\<close>

lemma check_constraint_counts_coerced_rows_example:
  "distinct (map fst db_quantity)
   \<and> named df_quantity_numbers ''Quantity''
        = [\<lparr>dtype = ''int64'', vals = [IntV 5, IntV 0, IntV (- 1)]\<rparr>]
   \<and> contains ''Quantity'' (get_sqltext ck_quantity)
   \<and> match_check ''Quantity'' (strip (get_sqltext ck_quantity)) = Some (''>'', 0)
   \<and> list_all (\<lambda>v. to_numeric digits_conv v \<noteq> None) [IntV 5, IntV 0, IntV (- 1)]
   \<and> count_where (coerced_and_failing digits_conv ''>'' 0) [IntV 5, IntV 0, IntV (- 1)] = 2
   \<and> check_constraint_violation ''Quantity'' (Some ''ck_quantity'') ''Quantity > 0'' 2
        [1, 2] [IntV 0, IntV (- 1)]
      \<in> set (fst (run_data_quality_checks digits_conv df_quantity_numbers db_quantity
                    (Some [ck_quantity])))"
proof -
  let ?col = "\<lparr>dtype = ''int64'', vals = [IntV 5, IntV 0, IntV (- 1)]\<rparr>"
  let ?d = "\<lparr>db_type = ''INTEGER'', nullable = True, primary_key = False\<rparr>"
  have dist: "distinct (map fst db_quantity)" by (simp add: db_quantity_def)
  have mem: "(''Quantity'', ?d) \<in> set db_quantity" by (simp add: db_quantity_def)
  have nm: "named df_quantity_numbers ''Quantity'' = [?col]"
    by (simp add: df_quantity_numbers_def named_def)
  have ct: "contains ''Quantity'' (get_sqltext ck_quantity)" by code_simp
  have all: "list_all (\<lambda>v. to_numeric digits_conv v \<noteq> None) [IntV 5, IntV 0, IntV (- 1)]"
    by simp
  have n: "count_where (coerced_and_failing digits_conv ''>'' 0) [IntV 5, IntV 0, IntV (- 1)] = 2"
    by (simp add: count_where_def coerced_and_failing_def satisfies_def)
  have rows: "map (coerced_and_failing digits_conv ''>'' 0) [IntV 5, IntV 0, IntV (- 1)]
      = [False, True, True]"
    by (simp add: coerced_and_failing_def satisfies_def)
  have s: "strip (get_sqltext ck_quantity) = ''Quantity > 0''" by code_simp
  have c: "cname ck_quantity = Some ''ck_quantity''" by (simp add: ck_quantity_def)
  have i: "index df_quantity_numbers = [0, 1, 2]" by (simp add: df_quantity_numbers_def)
  have "check_constraint_violation ''Quantity'' (cname ck_quantity) (strip (get_sqltext ck_quantity))
          (count_where (coerced_and_failing digits_conv ''>'' 0) (vals ?col))
          (take 5 (pick (map (coerced_and_failing digits_conv ''>'' 0) (vals ?col))
                        (index df_quantity_numbers)))
          (take 5 (pick (map (coerced_and_failing digits_conv ''>'' 0) (vals ?col)) (vals ?col)))
        \<in> set (fst (run_data_quality_checks digits_conv df_quantity_numbers db_quantity
                      (Some [ck_quantity])))"
    using check_constraint_counts_coerced_rows [OF dist mem nm, of "[ck_quantity]" digits_conv]
      ct quantity_match all n by simp
  then have "check_constraint_violation ''Quantity'' (Some ''ck_quantity'') ''Quantity > 0'' 2
        [1, 2] [IntV 0, IntV (- 1)]
      \<in> set (fst (run_data_quality_checks digits_conv df_quantity_numbers db_quantity
                    (Some [ck_quantity])))"
    using n rows by (simp add: s c i pick_def)
  with dist nm ct quantity_match all n show ?thesis by blast
qed

text \<open>
  Claim C1 at its own example: \<^verbatim>\<open>Quantity > 0\<close> against the values 5, 0, -1, "abc".
  Two coerced rows fail the comparison; the source coerces with \<^verbatim>\<open>errors='coerce'\<close>,
  and says in a comment, and writes in the mask \<^verbatim>\<open>violated_rows & numeric_col.notna()\<close>,
  that rows which were not coerced are to be ignored. But since "abc" is not coerced,
  \<^verbatim>\<open>is_numeric = numeric_col.notna().all()\<close> is false, the test
  \<^verbatim>\<open>match and is_numeric\<close> sends the constraint to the branch that logs the skip, and
  no violation is reported.
\<close>

theorem check_constraint_mixed_column_skipped:
  "match_check ''Quantity'' (strip (get_sqltext ck_quantity)) = Some (''>'', 0)
   \<and> count_where (coerced_and_failing digits_conv ''>'' 0)
        [IntV 5, IntV 0, IntV (- 1), StrV ''abc''] = 2
   \<and> run_data_quality_checks digits_conv df_quantity_mixed db_quantity (Some [ck_quantity])
        = ([], [SkippedCheckConstraintInfo ''Quantity'' ''Quantity > 0''])"
proof -
  have "count_where (coerced_and_failing digits_conv ''>'' 0)
        [IntV 5, IntV 0, IntV (- 1), StrV ''abc''] = 2"
    by code_simp
  moreover have "run_data_quality_checks digits_conv df_quantity_mixed db_quantity (Some [ck_quantity])
        = ([], [SkippedCheckConstraintInfo ''Quantity'' ''Quantity > 0''])"
    by code_simp
  ultimately show ?thesis using quantity_match by blast
qed

text \<open>
  For C1, read off the evaluation above: no \<^verbatim>\<open>check_constraint_violation\<close> with count
  2, and none at all, is reported for Quantity.
\<close>

theorem check_constraint_mixed_column_skipped_witness:
  "fst (run_data_quality_checks digits_conv df_quantity_mixed db_quantity (Some [ck_quantity])) = []
   \<and> \<not> (\<exists>nm t idx vs. check_constraint_violation ''Quantity'' nm t 2 idx vs
          \<in> set (fst (run_data_quality_checks digits_conv df_quantity_mixed db_quantity
                        (Some [ck_quantity]))))"
  using check_constraint_mixed_column_skipped by simp

section \<open>Properties of SchemaHistoryStore\<close>




















section \<open>Properties of SchemaExtractor\<close>






















section \<open>Properties of MultiSheetOrchestrator\<close>

lemma empty_sheet_extraction:
  assumes "df_empty (dropna_all df)"
  shows "extract_schema_from_df df fp sheet
           = (\<lparr>file_name = fp, sheet_name = sheet, total_rows = 0, total_columns = None,
                fs_columns = Some [], error = None\<rparr>, dropna_all df)"
  using assms by (simp add: extract_schema_from_df_def)

lemma empty_sheet_run:
  assumes "df_empty (dropna_all df)"
  shows "run_validation_for_sheet e w df fp sheet user now
           = ((error_report fp sheet
                 (''Schema extraction failed for sheet ''
                    @ quoted (case sheet of None \<Rightarrow> ''CSV Data'' | Some n \<Rightarrow> n)),
               None, None), w)"
  by (simp add: run_validation_for_sheet_def Let_def empty_sheet_extraction [OF assms])

lemma truthy_None: "\<not> truthy None"
  by (simp add: truthy_def)

lemma empty_sheet_step:
  assumes "df_empty (dropna_all df)"
  shows "process_sheet e fp user (sheet, Some df, now) (reports, inferred, w)
           = (AList.update (report_key sheet)
                \<lparr>report = error_report fp sheet
                            (''Schema extraction failed for sheet ''
                               @ quoted (case sheet of None \<Rightarrow> ''CSV Data'' | Some n \<Rightarrow> n)),
                 schema_analysis_report = None\<rparr> reports,
              inferred, w)"
  by (simp add: process_sheet_def empty_sheet_run [OF assms] truthy_None)

text \<open>What a round of the loop does to the reports: at most one key is written.\<close>

lemma process_sheet_shape:
  "\<exists>inferred' w'.
     (\<forall>reports. process_sheet e fp user sh (reports, inferred, w) = (reports, inferred', w'))
     \<or> (\<exists>v. \<forall>reports. process_sheet e fp user sh (reports, inferred, w)
                 = (AList.update (report_key (fst sh)) v reports, inferred', w'))"
proof (cases sh)
  case (fields sheet loaded now)
  show ?thesis
  proof (cases loaded)
    case None
    with fields show ?thesis by (auto simp: process_sheet_def)
  next
    case (Some df)
    obtain r a i w1 where "run_validation_for_sheet e w df fp sheet user now = ((r, a, i), w1)"
      by (metis prod.collapse)
    with fields Some show ?thesis
      by (auto simp: process_sheet_def)
  qed
qed

lemma process_sheet_other_key:
  assumes "report_key (fst sh) \<noteq> k"
    and "map_of reports1 = (map_of reports2)(k \<mapsto> x)"
  shows "\<exists>r1 r2 inferred' w'.
           process_sheet e fp user sh (reports1, inferred, w) = (r1, inferred', w')
         \<and> process_sheet e fp user sh (reports2, inferred, w) = (r2, inferred', w')
         \<and> map_of r1 = (map_of r2)(k \<mapsto> x)"
proof -
  from process_sheet_shape [of e fp user sh inferred w]
  obtain inferred' w' where
    "(\<forall>reports. process_sheet e fp user sh (reports, inferred, w) = (reports, inferred', w'))
     \<or> (\<exists>v. \<forall>reports. process_sheet e fp user sh (reports, inferred, w)
                 = (AList.update (report_key (fst sh)) v reports, inferred', w'))"
    by blast
  then show ?thesis
  proof
    assume "\<forall>reports. process_sheet e fp user sh (reports, inferred, w) = (reports, inferred', w')"
    with assms(2) show ?thesis by simp
  next
    assume "\<exists>v. \<forall>reports. process_sheet e fp user sh (reports, inferred, w)
                 = (AList.update (report_key (fst sh)) v reports, inferred', w')"
    then obtain v where v: "\<forall>reports. process_sheet e fp user sh (reports, inferred, w)
                 = (AList.update (report_key (fst sh)) v reports, inferred', w')" by blast
    have "map_of (AList.update (report_key (fst sh)) v reports1)
            = (map_of (AList.update (report_key (fst sh)) v reports2))(k \<mapsto> x)"
      using assms by (simp add: update_conv' fun_upd_twist)
    with v show ?thesis by simp
  qed
qed

lemma run_sheets_other_keys:
  assumes "\<forall>sh \<in> set sheets. report_key (fst sh) \<noteq> k"
    and "map_of reports1 = (map_of reports2)(k \<mapsto> x)"
  shows "\<exists>r1 r2 inferred' w'.
           run_sheets e fp user sheets (reports1, inferred, w) = (r1, inferred', w')
         \<and> run_sheets e fp user sheets (reports2, inferred, w) = (r2, inferred', w')
         \<and> map_of r1 = (map_of r2)(k \<mapsto> x)"
  using assms
proof (induction sheets arbitrary: reports1 reports2 inferred w)
  case Nil
  then show ?case by (simp add: run_sheets_def)
next
  case (Cons sh sheets)
  from Cons.prems have k: "report_key (fst sh) \<noteq> k" by simp
  from process_sheet_other_key [OF k Cons.prems(2), of e fp user inferred w]
  obtain r1 r2 i' w' where
    p: "process_sheet e fp user sh (reports1, inferred, w) = (r1, i', w')"
       "process_sheet e fp user sh (reports2, inferred, w) = (r2, i', w')"
       "map_of r1 = (map_of r2)(k \<mapsto> x)" by blast
  from Cons.prems have "\<forall>sh \<in> set sheets. report_key (fst sh) \<noteq> k" by simp
  from Cons.IH [OF this p(3), of i' w'] p(1,2) show ?case
    by (simp add: run_sheets_def)
qed

lemma run_sheets_append:
  "run_sheets e fp user (xs @ ys) st = run_sheets e fp user ys (run_sheets e fp user xs st)"
  by (simp add: run_sheets_def)

lemma run_sheets_Cons:
  "run_sheets e fp user (x # ys) st = run_sheets e fp user ys (process_sheet e fp user x st)"
  by (simp add: run_sheets_def)

text \<open>
  Claim C5. Let a sheet of a workbook be empty once its fully-blank rows are dropped,
  and let no other sheet of the workbook report under its name. Then SchemaExtractor
  returns a FileSchema with 0 rows, no columns and no error; the run of the sheet
  gives an error-shaped report with status \<^verbatim>\<open>Error\<close> and leaves the terminal input and
  the schema history as they were; and the run of the workbook gives every other sheet
  the report it gets in the workbook without the empty sheet, with the same inferred
  table and the same final state, and gives the empty sheet its error report.
\<close>

theorem empty_sheet_is_an_error_and_siblings_are_unaffected:
  assumes "df_empty (dropna_all df)"
    and "\<forall>sh \<in> set (before @ after). report_key (fst sh) \<noteq> name"
  shows "extract_schema_from_df df fp (Some name)
           = (\<lparr>file_name = fp, sheet_name = Some name, total_rows = 0, total_columns = None,
                fs_columns = Some [], error = None\<rparr>, dropna_all df)
       \<and> run_validation_for_sheet e w df fp (Some name) user now
           = ((ErrorShaped \<lparr>er_file_name = fp, er_sheet_name = Some name, er_status = ''Error'',
                            er_details = ''Schema extraction failed for sheet '' @ quoted name,
                            er_error = ''Schema extraction failed for sheet '' @ quoted name\<rparr>,
               None, None), w)
       \<and> (\<exists>reports reports' inferred w'.
            run_sheets e fp user (before @ (Some name, Some df, now) # after) st
              = (reports, inferred, w')
            \<and> run_sheets e fp user (before @ after) st = (reports', inferred, w')
            \<and> map_of reports
                = (map_of reports')(name \<mapsto>
                    \<lparr>report = ErrorShaped
                       \<lparr>er_file_name = fp, er_sheet_name = Some name, er_status = ''Error'',
                        er_details = ''Schema extraction failed for sheet '' @ quoted name,
                        er_error = ''Schema extraction failed for sheet '' @ quoted name\<rparr>,
                     schema_analysis_report = None\<rparr>))"
proof (intro conjI)
  show "extract_schema_from_df df fp (Some name)
           = (\<lparr>file_name = fp, sheet_name = Some name, total_rows = 0, total_columns = None,
                fs_columns = Some [], error = None\<rparr>, dropna_all df)"
    by (rule empty_sheet_extraction [OF assms(1)])
  show "run_validation_for_sheet e w df fp (Some name) user now
           = ((ErrorShaped \<lparr>er_file_name = fp, er_sheet_name = Some name, er_status = ''Error'',
                            er_details = ''Schema extraction failed for sheet '' @ quoted name,
                            er_error = ''Schema extraction failed for sheet '' @ quoted name\<rparr>,
               None, None), w)"
    using empty_sheet_run [OF assms(1), of e w fp "Some name" user now]
    by (simp add: error_report_def)
  let ?x = "\<lparr>report = ErrorShaped
                       \<lparr>er_file_name = fp, er_sheet_name = Some name, er_status = ''Error'',
                        er_details = ''Schema extraction failed for sheet '' @ quoted name,
                        er_error = ''Schema extraction failed for sheet '' @ quoted name\<rparr>,
                     schema_analysis_report = None\<rparr>"
  obtain r0 i0 w0 where b: "run_sheets e fp user before st = (r0, i0, w0)"
    by (metis prod.collapse)
  have step: "process_sheet e fp user (Some name, Some df, now) (r0, i0, w0)
                = (AList.update name ?x r0, i0, w0)"
    using empty_sheet_step [OF assms(1), of e fp user "Some name" now r0 i0 w0]
    by (simp add: error_report_def report_key_def)
  have m: "map_of (AList.update name ?x r0) = (map_of r0)(name \<mapsto> ?x)"
    by (rule update_conv')
  from assms(2) have "\<forall>sh \<in> set after. report_key (fst sh) \<noteq> name" by simp
  from run_sheets_other_keys [OF this m, of e fp user i0 w0]
  obtain r1 r2 i' w' where
    r: "run_sheets e fp user after (AList.update name ?x r0, i0, w0) = (r1, i', w')"
       "run_sheets e fp user after (r0, i0, w0) = (r2, i', w')"
       "map_of r1 = (map_of r2)(name \<mapsto> ?x)" by blast
  have "run_sheets e fp user (before @ (Some name, Some df, now) # after) st = (r1, i', w')"
    by (simp only: run_sheets_append run_sheets_Cons b step r(1))
  moreover have "run_sheets e fp user (before @ after) st = (r2, i', w')"
    by (simp only: run_sheets_append b r(2))
  ultimately show "\<exists>reports reports' inferred w'.
            run_sheets e fp user (before @ (Some name, Some df, now) # after) st
              = (reports, inferred, w')
            \<and> run_sheets e fp user (before @ after) st = (reports', inferred, w')
            \<and> map_of reports = (map_of reports')(name \<mapsto> ?x)"
    using r(3) by blast
qed

lemma only_blank_is_empty: "df_empty (dropna_all df_only_blank)"
  by code_simp

text \<open>
  A witness for C5: a workbook whose sheet Blank holds missing values only and whose
  sheet Orders validates against the table Orders.
\<close>

theorem empty_sheet_is_an_error_and_siblings_are_unaffected_witness:
  "df_empty (dropna_all df_only_blank)
   \<and> report_key (Some ''Orders'') \<noteq> ''Blank''
   \<and> run_validation_for_sheet env_two_tables world_start df_only_blank ''book.xlsx''
        (Some ''Blank'') (Some ''Orders'') ''20240101T000000Z''
       = ((ErrorShaped \<lparr>er_file_name = ''book.xlsx'', er_sheet_name = Some ''Blank'',
                        er_status = ''Error'',
                        er_details = ''Schema extraction failed for sheet '' @ quoted ''Blank'',
                        er_error = ''Schema extraction failed for sheet '' @ quoted ''Blank''\<rparr>,
           None, None), world_start)
   \<and> map_of (fst (run_sheets env_two_tables ''book.xlsx'' (Some ''Orders'')
                     [(Some ''Blank'', Some df_only_blank, ''20240101T000000Z''),
                      (Some ''Orders'', Some df_orders, ''20240101T000001Z'')]
                     ([], None, world_start))) ''Orders''
       = Some \<lparr>report = FinalReport ''{}'',
               schema_analysis_report = Some \<lparr>naming_mismatches = None, analysis_text = ''{}''\<rparr>\<rparr>"
proof -
  have k: "report_key (Some ''Orders'') \<noteq> ''Blank''" by (simp add: report_key_def)
  have h: "\<forall>sh \<in> set ([] @ [(Some ''Orders'', Some df_orders, ''20240101T000001Z'')]).
      report_key (fst sh) \<noteq> ''Blank''" using k by simp
  note t = empty_sheet_is_an_error_and_siblings_are_unaffected [OF only_blank_is_empty h,
      of "''book.xlsx''" env_two_tables world_start "Some ''Orders''" "''20240101T000000Z''"
         "([], None, world_start)"]
  from t have r: "run_validation_for_sheet env_two_tables world_start df_only_blank ''book.xlsx''
        (Some ''Blank'') (Some ''Orders'') ''20240101T000000Z''
       = ((ErrorShaped \<lparr>er_file_name = ''book.xlsx'', er_sheet_name = Some ''Blank'',
                        er_status = ''Error'',
                        er_details = ''Schema extraction failed for sheet '' @ quoted ''Blank'',
                        er_error = ''Schema extraction failed for sheet '' @ quoted ''Blank''\<rparr>,
           None, None), world_start)" by blast
  from t obtain reports reports' inferred w' where
    a: "run_sheets env_two_tables ''book.xlsx'' (Some ''Orders'')
          ([] @ (Some ''Blank'', Some df_only_blank, ''20240101T000000Z'')
               # [(Some ''Orders'', Some df_orders, ''20240101T000001Z'')])
          ([], None, world_start) = (reports, inferred, w')"
    and b: "run_sheets env_two_tables ''book.xlsx'' (Some ''Orders'')
          ([] @ [(Some ''Orders'', Some df_orders, ''20240101T000001Z'')])
          ([], None, world_start) = (reports', inferred, w')"
    and c: "map_of reports ''Orders'' = map_of reports' ''Orders''"
    by (auto simp: fun_eq_iff)
  have "map_of (fst (run_sheets env_two_tables ''book.xlsx'' (Some ''Orders'')
                     [(Some ''Orders'', Some df_orders, ''20240101T000001Z'')]
                     ([], None, world_start))) ''Orders''
       = Some \<lparr>report = FinalReport ''{}'',
               schema_analysis_report = Some \<lparr>naming_mismatches = None, analysis_text = ''{}''\<rparr>\<rparr>"
    by code_simp
  with a b c have "map_of (fst (run_sheets env_two_tables ''book.xlsx'' (Some ''Orders'')
                     [(Some ''Blank'', Some df_only_blank, ''20240101T000000Z''),
                      (Some ''Orders'', Some df_orders, ''20240101T000001Z'')]
                     ([], None, world_start))) ''Orders''
       = Some \<lparr>report = FinalReport ''{}'',
               schema_analysis_report = Some \<lparr>naming_mismatches = None, analysis_text = ''{}''\<rparr>\<rparr>"
    by simp
  with only_blank_is_empty k r show ?thesis by blast
qed

lemma extraction_succeeds:
  assumes "\<not> df_empty (dropna_all df)" and "distinct (map fst (columns (dropna_all df)))"
  shows "error (fst (extract_schema_from_df df fp sheet)) = None"
    and "fs_columns (fst (extract_schema_from_df df fp sheet)) \<noteq> None"
    and "fs_columns (fst (extract_schema_from_df df fp sheet)) \<noteq> Some []"
  using assms by (simp_all add: extract_schema_from_df_def df_empty_def Let_def)

lemma resolve_table_rejects:
  assumes "all_table_schemas e \<noteq> []" and "stdin w = line # rest"
    and "strip line = [] \<or> lower (strip line) = ''none''
         \<or> strip line \<notin> set (map fst (all_table_schemas e))"
  shows "resolve_table e w None
           = (Inl (if strip line = [] \<or> lower (strip line) = ''none''
                   then ''Process stopped: User confirmed no matching table.''
                   else ''Invalid table: '' @ quoted (strip line)
                          @ '' is not in the database. Aborting.''),
              w\<lparr>stdin := rest\<rparr>)"
  using assms by (auto simp: resolve_table_def Let_def)

lemma resolve_table_candidates:
  assumes "resolve_table e w None = (Inr (t, i), w')"
  shows "t \<in> set (map fst (all_table_schemas e)) \<and> i = Some t \<and> t \<noteq> []
       \<and> lower t \<noteq> ''none''
       \<and> (\<exists>line rest. stdin w = line # rest \<and> t = strip line \<and> w' = w\<lparr>stdin := rest\<rparr>)"
  using assms
  by (auto simp: resolve_table_def Let_def split: if_splits list.splits)

lemma resolve_table_rejects_any:
  assumes "stdin w = line # rest"
    and "strip line = [] \<or> lower (strip line) = ''none''
         \<or> strip line \<notin> set (map fst (all_table_schemas e))"
  shows "\<exists>msg w'. resolve_table e w None = (Inl msg, w')
           \<and> schema_history w' = schema_history w \<and> (w' = w \<or> w' = w\<lparr>stdin := rest\<rparr>)"
proof (cases "all_table_schemas e = []")
  case True
  then show ?thesis by (simp add: resolve_table_def)
next
  case False
  from resolve_table_rejects [OF False assms] show ?thesis by simp
qed

lemma unresolved_sheet_is_an_error:
  assumes "stdin w = line # rest"
    and "strip line = [] \<or> lower (strip line) = ''none''
         \<or> strip line \<notin> set (map fst (all_table_schemas e))"
  shows "\<exists>msg w'. run_validation_for_sheet e w df fp sheet None now
                     = ((error_report fp sheet msg, None, None), w')
           \<and> schema_history w' = schema_history w \<and> (w' = w \<or> w' = w\<lparr>stdin := rest\<rparr>)"
proof (cases "error (fst (extract_schema_from_df df fp sheet)) \<noteq> None
              \<or> fs_columns (fst (extract_schema_from_df df fp sheet)) = None
              \<or> fs_columns (fst (extract_schema_from_df df fp sheet)) = Some []")
  case True
  then have "run_validation_for_sheet e w df fp sheet None now
      = ((error_report fp sheet
            (''Schema extraction failed for sheet ''
               @ quoted (case sheet of None \<Rightarrow> ''CSV Data'' | Some n \<Rightarrow> n)), None, None), w)"
    unfolding run_validation_for_sheet_def Let_def by (simp only: if_True)
  then show ?thesis by blast
next
  case False
  from resolve_table_rejects_any [OF assms] obtain msg w' where
    r: "resolve_table e w None = (Inl msg, w')"
       "schema_history w' = schema_history w" "w' = w \<or> w' = w\<lparr>stdin := rest\<rparr>" by blast
  from False have c: "(error (fst (extract_schema_from_df df fp sheet)) \<noteq> None
              \<or> fs_columns (fst (extract_schema_from_df df fp sheet)) = None
              \<or> fs_columns (fst (extract_schema_from_df df fp sheet)) = Some []) = False"
    by blast
  have "run_validation_for_sheet e w df fp sheet None now
      = ((error_report fp sheet msg, None, None), w')"
    unfolding run_validation_for_sheet_def Let_def c r(1) by simp
  with r(2,3) show ?thesis by blast
qed

text \<open>
  Claim C6. Let no table name be supplied by the caller, and let the line read from
  the terminal, stripped, be empty, be \<^verbatim>\<open>none\<close> in any case of letters, or be no name
  of the candidate set (the tables the database lists). Then the run of the sheet gives
  an error-shaped report, infers no table and leaves the schema history as it was; the
  loop records the report under the key of the sheet and goes on with the sheets that
  follow. When the schema of the sheet was extracted and the database lists a table,
  the report says that the user declined or that the table is not in the database, and
  that one line has been read. And whenever a table is resolved without a name from the
  caller, it is the stripped line read from the terminal and a member of the candidate
  set.
\<close>

theorem unresolved_table_aborts_only_that_sheet:
  assumes "stdin w = line # rest"
    and "strip line = [] \<or> lower (strip line) = ''none''
         \<or> strip line \<notin> set (map fst (all_table_schemas e))"
  shows "(\<exists>msg w'.
            run_validation_for_sheet e w df fp sheet None now
              = ((error_report fp sheet msg, None, None), w')
            \<and> schema_history w' = schema_history w \<and> (w' = w \<or> w' = w\<lparr>stdin := rest\<rparr>)
            \<and> run_sheets e fp None ((sheet, Some df, now) # after) (reports, inferred, w)
                = run_sheets e fp None after
                    (AList.update (report_key sheet)
                       \<lparr>report = error_report fp sheet msg, schema_analysis_report = None\<rparr>
                       reports,
                     inferred, w'))
       \<and> (\<not> df_empty (dropna_all df) \<and> distinct (map fst (columns (dropna_all df)))
            \<and> all_table_schemas e \<noteq> []
          \<longrightarrow> run_validation_for_sheet e w df fp sheet None now
                = ((error_report fp sheet
                      (if strip line = [] \<or> lower (strip line) = ''none''
                       then ''Process stopped: User confirmed no matching table.''
                       else ''Invalid table: '' @ quoted (strip line)
                              @ '' is not in the database. Aborting.''),
                    None, None), w\<lparr>stdin := rest\<rparr>))
       \<and> (\<forall>w0 t i w'. resolve_table e w0 None = (Inr (t, i), w')
            \<longrightarrow> t \<in> set (map fst (all_table_schemas e)) \<and> i = Some t \<and> t \<noteq> []
                \<and> lower t \<noteq> ''none''
                \<and> (\<exists>line rest. stdin w0 = line # rest \<and> t = strip line
                                 \<and> w' = w0\<lparr>stdin := rest\<rparr>))"
proof (intro conjI)
  from unresolved_sheet_is_an_error [OF assms, of df fp sheet now] obtain msg w' where
    r: "run_validation_for_sheet e w df fp sheet None now
          = ((error_report fp sheet msg, None, None), w')"
       "schema_history w' = schema_history w" "w' = w \<or> w' = w\<lparr>stdin := rest\<rparr>" by blast
  have "run_sheets e fp None ((sheet, Some df, now) # after) (reports, inferred, w)
          = run_sheets e fp None after
              (AList.update (report_key sheet)
                 \<lparr>report = error_report fp sheet msg, schema_analysis_report = None\<rparr> reports,
               inferred, w')"
    unfolding run_sheets_Cons by (simp add: process_sheet_def r(1) truthy_None)
  with r show "\<exists>msg w'.
            run_validation_for_sheet e w df fp sheet None now
              = ((error_report fp sheet msg, None, None), w')
            \<and> schema_history w' = schema_history w \<and> (w' = w \<or> w' = w\<lparr>stdin := rest\<rparr>)
            \<and> run_sheets e fp None ((sheet, Some df, now) # after) (reports, inferred, w)
                = run_sheets e fp None after
                    (AList.update (report_key sheet)
                       \<lparr>report = error_report fp sheet msg, schema_analysis_report = None\<rparr>
                       reports,
                     inferred, w')"
    by blast
  show "\<not> df_empty (dropna_all df) \<and> distinct (map fst (columns (dropna_all df)))
            \<and> all_table_schemas e \<noteq> []
          \<longrightarrow> run_validation_for_sheet e w df fp sheet None now
                = ((error_report fp sheet
                      (if strip line = [] \<or> lower (strip line) = ''none''
                       then ''Process stopped: User confirmed no matching table.''
                       else ''Invalid table: '' @ quoted (strip line)
                              @ '' is not in the database. Aborting.''),
                    None, None), w\<lparr>stdin := rest\<rparr>)"
  proof
    assume h: "\<not> df_empty (dropna_all df) \<and> distinct (map fst (columns (dropna_all df)))
            \<and> all_table_schemas e \<noteq> []"
    then have c: "(error (fst (extract_schema_from_df df fp sheet)) \<noteq> None
              \<or> fs_columns (fst (extract_schema_from_df df fp sheet)) = None
              \<or> fs_columns (fst (extract_schema_from_df df fp sheet)) = Some []) = False"
      using extraction_succeeds [of df fp sheet] by simp
    from h have s: "all_table_schemas e \<noteq> []" by simp
    show "run_validation_for_sheet e w df fp sheet None now
                = ((error_report fp sheet
                      (if strip line = [] \<or> lower (strip line) = ''none''
                       then ''Process stopped: User confirmed no matching table.''
                       else ''Invalid table: '' @ quoted (strip line)
                              @ '' is not in the database. Aborting.''),
                    None, None), w\<lparr>stdin := rest\<rparr>)"
      unfolding run_validation_for_sheet_def Let_def c resolve_table_rejects [OF s assms]
      by simp
  qed
  show "\<forall>w0 t i w'. resolve_table e w0 None = (Inr (t, i), w')
            \<longrightarrow> t \<in> set (map fst (all_table_schemas e)) \<and> i = Some t \<and> t \<noteq> []
                \<and> lower t \<noteq> ''none''
                \<and> (\<exists>line rest. stdin w0 = line # rest \<and> t = strip line
                                 \<and> w' = w0\<lparr>stdin := rest\<rparr>)"
    using resolve_table_candidates by blast
qed

lemma orders_not_empty:
  "\<not> df_empty (dropna_all df_orders)" "distinct (map fst (columns (dropna_all df_orders)))"
  by code_simp+

lemma invoices_stripped: "strip '' Invoices '' = ''Invoices''"
  by code_simp

text \<open>
  A witness for C6: the user answers Invoices, which the database does not have, for
  the first sheet and Orders for the second; the first sheet ends in an error, the
  second is validated.
\<close>

theorem unresolved_table_aborts_only_that_sheet_witness:
  "\<not> df_empty (dropna_all df_orders)
   \<and> distinct (map fst (columns (dropna_all df_orders)))
   \<and> all_table_schemas env_two_tables \<noteq> []
   \<and> stdin world_start = '' Invoices '' # [''Orders'']
   \<and> strip '' Invoices '' \<notin> set (map fst (all_table_schemas env_two_tables))
   \<and> run_validation_for_sheet env_two_tables world_start df_orders ''book.xlsx''
        (Some ''Sheet1'') None ''20240101T000000Z''
       = ((error_report ''book.xlsx'' (Some ''Sheet1'')
             (''Invalid table: '' @ quoted ''Invoices'' @ '' is not in the database. Aborting.''),
           None, None), world_start\<lparr>stdin := [''Orders'']\<rparr>)
   \<and> map_of (fst (run_sheets env_two_tables ''book.xlsx'' None
                     [(Some ''Sheet1'', Some df_orders, ''20240101T000000Z''),
                      (Some ''Sheet2'', Some df_orders, ''20240101T000001Z'')]
                     ([], None, world_start))) ''Sheet2''
       = Some \<lparr>report = FinalReport ''{}'',
               schema_analysis_report = Some \<lparr>naming_mismatches = None, analysis_text = ''{}''\<rparr>\<rparr>"
proof -
  let ?msg = "''Invalid table: '' @ quoted ''Invoices'' @ '' is not in the database. Aborting.''"
  have s: "all_table_schemas env_two_tables \<noteq> []" by (simp add: env_two_tables_def)
  have i: "stdin world_start = '' Invoices '' # [''Orders'']" by (simp add: world_start_def)
  have c: "strip '' Invoices '' \<notin> set (map fst (all_table_schemas env_two_tables))"
    unfolding invoices_stripped by (simp add: env_two_tables_def)
  then have h: "strip '' Invoices '' = [] \<or> lower (strip '' Invoices '') = ''none''
         \<or> strip '' Invoices '' \<notin> set (map fst (all_table_schemas env_two_tables))" by blast
  have n: "\<not> (strip '' Invoices '' = [] \<or> lower (strip '' Invoices '') = ''none'')"
    by code_simp
  note t = unresolved_table_aborts_only_that_sheet [OF i h, where df = df_orders
      and fp = "''book.xlsx''" and sheet = "Some ''Sheet1''" and now = "''20240101T000000Z''"]
  from t orders_not_empty s n
  have r: "run_validation_for_sheet env_two_tables world_start df_orders ''book.xlsx''
        (Some ''Sheet1'') None ''20240101T000000Z''
       = ((error_report ''book.xlsx'' (Some ''Sheet1'') ?msg, None, None),
          world_start\<lparr>stdin := [''Orders'']\<rparr>)"
    by (simp only: invoices_stripped if_False simp_thms)
  have l: "run_sheets env_two_tables ''book.xlsx'' None
            [(Some ''Sheet1'', Some df_orders, ''20240101T000000Z''),
             (Some ''Sheet2'', Some df_orders, ''20240101T000001Z'')] ([], None, world_start)
       = run_sheets env_two_tables ''book.xlsx'' None
            [(Some ''Sheet2'', Some df_orders, ''20240101T000001Z'')]
            (AList.update (report_key (Some ''Sheet1''))
               \<lparr>report = error_report ''book.xlsx'' (Some ''Sheet1'') ?msg,
                schema_analysis_report = None\<rparr> [],
             None, world_start\<lparr>stdin := [''Orders'']\<rparr>)"
    unfolding run_sheets_Cons by (simp only: process_sheet_def r truthy_None prod.case option.case simp_thms if_False)
  have "map_of (fst (run_sheets env_two_tables ''book.xlsx'' None
            [(Some ''Sheet2'', Some df_orders, ''20240101T000001Z'')]
            (AList.update (report_key (Some ''Sheet1''))
               \<lparr>report = error_report ''book.xlsx'' (Some ''Sheet1'') ?msg,
                schema_analysis_report = None\<rparr> [],
             None, world_start\<lparr>stdin := [''Orders'']\<rparr>))) ''Sheet2''
       = Some \<lparr>report = FinalReport ''{}'',
               schema_analysis_report = Some \<lparr>naming_mismatches = None, analysis_text = ''{}''\<rparr>\<rparr>"
    by code_simp
  then have m: "map_of (fst (run_sheets env_two_tables ''book.xlsx'' None
                     [(Some ''Sheet1'', Some df_orders, ''20240101T000000Z''),
                      (Some ''Sheet2'', Some df_orders, ''20240101T000001Z'')]
                     ([], None, world_start))) ''Sheet2''
       = Some \<lparr>report = FinalReport ''{}'',
               schema_analysis_report = Some \<lparr>naming_mismatches = None, analysis_text = ''{}''\<rparr>\<rparr>"
    by (simp only: l)
  from orders_not_empty s i c r m show ?thesis by blast
qed

end
